theory Spec2Isabelle
  imports Complex_Main
begin

section \<open>Data model\<close>

text \<open>
  Python floats are modelled as mathematical reals: rounding, infinities and NaN are
  outside this development. Python's exceptions are values of type \<open>error\<close>; a function
  that can raise returns \<open>error + 'a\<close> with \<open>Inl\<close> for the exception.
\<close>

datatype error = ZeroDivisionError | IndexError | ValueError

text \<open>
  A position or velocity is a Python list of exactly three floats \<open>[x, y, z]\<close>
  (only ever indexed with 0, 1 and 2), modelled as a triple.
\<close>

type_synonym vec3 = "real \<times> real \<times> real"

definition vx :: "vec3 \<Rightarrow> real" where "vx v = fst v"
definition vy :: "vec3 \<Rightarrow> real" where "vy v = fst (snd v)"
definition vz :: "vec3 \<Rightarrow> real" where "vz v = snd (snd v)"

text \<open>Class \<open>Planet\<close>.\<close>

record planet =
  radius :: real
  orbit_radius :: real
  orbit_speed :: real
  rotation_speed :: real
  color :: vec3
  current_angle :: real
  name :: string
  is_custom :: bool
  position :: vec3
  velocity :: vec3
  mass :: real

definition Planet :: "real \<Rightarrow> real \<Rightarrow> real \<Rightarrow> real \<Rightarrow> vec3 \<Rightarrow> string \<Rightarrow> planet" where
  "Planet r orad ospeed rspeed col nm =
     \<lparr>radius = r, orbit_radius = orad, orbit_speed = ospeed, rotation_speed = rspeed,
      color = col, current_angle = 0, name = nm, is_custom = False,
      position = (0, 0, 0), velocity = (0, 0, 0), mass = r ^ 3\<rparr>"

text \<open>
  Class \<open>CustomMass\<close>. The trail is a list of \<open>[x, z]\<close> pairs. The radius
  \<open>mass ** (1/3)\<close> is the real power; for a negative mass Python's power is a complex
  number, and the program spawns the masses 1, 5, 10, 20 and 50 only.
\<close>

record custom_mass =
  position :: vec3
  mass :: real
  radius :: real
  color :: vec3
  velocity :: vec3
  is_selected :: bool
  trail :: "(real \<times> real) list"

definition CustomMass :: "real \<Rightarrow> real \<Rightarrow> real \<Rightarrow> vec3 \<Rightarrow> custom_mass" where
  "CustomMass x z m col =
     \<lparr>position = (x, 0, z), mass = m, radius = (m powr (1 / 3)) * 0.5, color = col,
      velocity = (0, 0, 0), is_selected = False, trail = []\<rparr>"

text \<open>
  Class \<open>SolarSystemSimulation\<close>. Custom masses are Python objects shared between the
  list \<open>custom_masses\<close> and the reference \<open>selected_mass\<close>, and they are mutated in
  place; the model keeps them in a store \<open>objs\<close> from addresses to objects, the list
  and the selection hold addresses, and \<open>next_obj\<close> is the next unused address.
  Planets are referenced from the list \<open>planets\<close> only and are kept there by value.
  Each entry of \<open>original_planets\<close> is the dictionary with keys \<open>angle\<close>,
  \<open>orbit_radius\<close> and \<open>orbit_speed\<close>, as a triple in that order.
  \<open>grid_size\<close> and \<open>grid_spacing\<close> are assigned once in the constructor and never
  again; they are constants here.
\<close>

definition grid_size :: nat where "grid_size = 80"
definition grid_spacing :: real where "grid_spacing = 0.6"

record sim =
  width :: int
  height :: int
  camera_angle_x :: real
  camera_angle_y :: real
  camera_distance :: real
  mouse_pressed :: bool
  last_mouse_x :: int
  last_mouse_y :: int
  time_speed :: real
  current_time :: real
  paused :: bool
  grid_heights :: "real list list"
  objs :: "nat \<Rightarrow> custom_mass"
  next_obj :: nat
  custom_masses :: "nat list"
  selected_mass :: "nat option"
  spawn_mode :: bool
  spawn_mass :: real
  show_trails :: bool
  physics_enabled :: bool
  planets :: "planet list"
  original_planets :: "(real \<times> real \<times> real) list"

section \<open>Loops that can raise\<close>

text \<open>\<open>for x in xs: s = body(x, s)\<close>, stopping at the first exception.\<close>

fun foldE :: "('a \<Rightarrow> 's \<Rightarrow> error + 's) \<Rightarrow> 'a list \<Rightarrow> 's \<Rightarrow> error + 's" where
  "foldE f [] s = Inr s"
| "foldE f (x # xs) s = (case f x s of Inl e \<Rightarrow> Inl e | Inr s' \<Rightarrow> foldE f xs s')"

section \<open>The gravity solver: \<open>apply_gravitational_forces\<close>\<close>

definition G :: real where "G = 0.1"
definition damping :: real where "damping = 0.999"

text \<open>
  Body of the inner loop over \<open>mass2\<close> (for \<open>i != j\<close>): the force of \<open>mass2\<close> on
  \<open>mass1\<close> is added to the accumulators \<open>(force_x, force_z)\<close>.
\<close>

definition add_pair_force :: "custom_mass \<Rightarrow> custom_mass \<Rightarrow> real \<times> real \<Rightarrow> real \<times> real" where
  "add_pair_force mass1 mass2 f =
     (let dx = vx (custom_mass.position mass2) - vx (custom_mass.position mass1);
          dz = vz (custom_mass.position mass2) - vz (custom_mass.position mass1);
          distance = sqrt (dx * dx + dz * dz)
      in if distance > 0.1
         then (let force_magnitude = G * custom_mass.mass mass1 * custom_mass.mass mass2 / distance ^ 2
               in (fst f + force_magnitude * dx / distance, snd f + force_magnitude * dz / distance))
         else f)"

text \<open>The inner loop \<open>for j, mass2 in enumerate(self.custom_masses)\<close>.\<close>

definition pair_forces :: "(nat \<Rightarrow> custom_mass) \<Rightarrow> nat list \<Rightarrow> nat \<Rightarrow> custom_mass \<Rightarrow> real \<times> real" where
  "pair_forces h cms i mass1 =
     fold (\<lambda>(j, b) f. if i \<noteq> j then add_pair_force mass1 (h b) f else f) (enumerate 0 cms) (0, 0)"

text \<open>
  The force from the sun; \<open>self.planets[0]\<close> raises \<open>IndexError\<close> on an empty list.
\<close>

definition add_sun_force :: "planet list \<Rightarrow> custom_mass \<Rightarrow> real \<times> real \<Rightarrow> error + real \<times> real" where
  "add_sun_force ps mass1 f =
     (let dx = 0 - vx (custom_mass.position mass1);
          dz = 0 - vz (custom_mass.position mass1);
          distance = sqrt (dx * dx + dz * dz)
      in if distance > 0.1
         then (case ps of
                 [] \<Rightarrow> Inl IndexError
               | p0 # _ \<Rightarrow>
                   (let sun_mass = planet.radius p0 ^ 3 * 10;
                        force_magnitude = G * custom_mass.mass mass1 * sun_mass / distance ^ 2
                    in Inr (fst f + force_magnitude * dx / distance,
                            snd f + force_magnitude * dz / distance)))
         else Inr f)"

text \<open>
  The trail update: \<open>if len(trail) > 100: trail.pop(0)\<close>, then \<open>trail.append(p)\<close>.
\<close>

definition push_trail :: "(real \<times> real) list \<Rightarrow> real \<times> real \<Rightarrow> (real \<times> real) list" where
  "push_trail tr p = (if length tr > 100 then tl tr else tr) @ [p]"

text \<open>
  Velocity, damping, position and trail of \<open>mass1\<close> under the net force \<open>(force_x, force_z)\<close>.
  The division \<open>force_x / mass1.mass\<close> raises \<open>ZeroDivisionError\<close> for a zero mass,
  before anything of \<open>mass1\<close> is written.
\<close>

definition integrate :: "real \<Rightarrow> real \<times> real \<Rightarrow> custom_mass \<Rightarrow> error + custom_mass" where
  "integrate dt f mass1 =
     (if custom_mass.mass mass1 = 0 then Inl ZeroDivisionError
      else
        (let v = custom_mass.velocity mass1;
             v0 = vx v + (fst f / custom_mass.mass mass1) * dt;
             v2 = vz v + (snd f / custom_mass.mass mass1) * dt;
             v0 = v0 * damping;
             v2 = v2 * damping;
             p = custom_mass.position mass1;
             p0 = vx p + v0 * dt;
             p2 = vz p + v2 * dt
         in Inr (mass1\<lparr>custom_mass.velocity := (v0, vy v, v2),
                        custom_mass.position := (p0, vy p, p2),
                        trail := push_trail (trail mass1) (p0, p2)\<rparr>)))"

text \<open>
  Body of the outer loop for the pair \<open>(i, a)\<close> of \<open>enumerate(self.custom_masses)\<close>:
  \<open>mass1\<close> is the object at address \<open>a\<close>, and its update is written back to the store.
\<close>

definition update_mass :: "real \<Rightarrow> planet list \<Rightarrow> nat list \<Rightarrow> nat \<times> nat \<Rightarrow>
    (nat \<Rightarrow> custom_mass) \<Rightarrow> error + (nat \<Rightarrow> custom_mass)" where
  "update_mass dt ps cms ia h =
     (let i = fst ia; a = snd ia; mass1 = h a
      in case add_sun_force ps mass1 (pair_forces h cms i mass1) of
           Inl e \<Rightarrow> Inl e
         | Inr f \<Rightarrow>
             (case integrate dt f mass1 of
                Inl e \<Rightarrow> Inl e
              | Inr mass1' \<Rightarrow> Inr (h(a := mass1'))))"

text \<open>
  The second pass, for one planet of \<open>self.planets[1:]\<close>: the perturbation summed over
  the custom masses, then the change of orbit speed and orbit radius.
\<close>

definition add_perturbation :: "real \<Rightarrow> real \<Rightarrow> custom_mass \<Rightarrow> real \<times> real \<Rightarrow> real \<times> real" where
  "add_perturbation planet_x planet_z m t =
     (let dx = vx (custom_mass.position m) - planet_x;
          dz = vz (custom_mass.position m) - planet_z;
          distance = sqrt (dx * dx + dz * dz)
      in if distance > 0.1
         then (let perturbation_strength = custom_mass.mass m / distance ^ 2 * 0.001
               in (fst t + perturbation_strength * dx / distance,
                   snd t + perturbation_strength * dz / distance))
         else t)"

definition perturb_planet :: "(nat \<Rightarrow> custom_mass) \<Rightarrow> nat list \<Rightarrow> planet \<Rightarrow> planet" where
  "perturb_planet h cms p =
     (let planet_x = orbit_radius p * cos (current_angle p);
          planet_z = orbit_radius p * sin (current_angle p);
          t = fold (\<lambda>a t. add_perturbation planet_x planet_z (h a) t) cms (0, 0);
          total_perturbation_x = fst t;
          total_perturbation_z = snd t
      in if \<bar>total_perturbation_x\<bar> > 0.001 \<or> \<bar>total_perturbation_z\<bar> > 0.001
         then p\<lparr>orbit_speed := orbit_speed p * (1 + total_perturbation_x * 0.01),
                 orbit_radius := orbit_radius p * (1 + total_perturbation_z * 0.001)\<rparr>
         else p)"

text \<open>\<open>for planet in self.planets[1:]\<close>: every planet but the first, in place.\<close>

definition map_tail :: "('a \<Rightarrow> 'a) \<Rightarrow> 'a list \<Rightarrow> 'a list" where
  "map_tail f ps = (case ps of [] \<Rightarrow> [] | p0 # rest \<Rightarrow> p0 # map f rest)"

definition apply_gravitational_forces :: "real \<Rightarrow> sim \<Rightarrow> error + sim" where
  "apply_gravitational_forces dt s =
     (if \<not> physics_enabled s then Inr s
      else
        (case foldE (update_mass dt (planets s) (custom_masses s))
                    (enumerate 0 (custom_masses s)) (objs s) of
           Inl e \<Rightarrow> Inl e
         | Inr h \<Rightarrow>
             Inr (s\<lparr>objs := h,
                    planets := map_tail (perturb_planet h (custom_masses s)) (planets s)\<rparr>)))"

section \<open>The curvature field: \<open>update_spacetime_grid\<close>\<close>

text \<open>
  \<open>self.grid_heights[i][j] += curvature\<close>; an index outside the array raises
  \<open>IndexError\<close>.
\<close>

definition add_cell :: "nat \<Rightarrow> nat \<Rightarrow> real \<Rightarrow> real list list \<Rightarrow> error + real list list" where
  "add_cell i j c g =
     (if i < length g \<and> j < length (g ! i)
      then Inr (g[i := (g ! i)[j := g ! i ! j + c]])
      else Inl IndexError)"

definition curvature :: "real \<Rightarrow> real \<Rightarrow> real \<Rightarrow> nat \<Rightarrow> nat \<Rightarrow> real" where
  "curvature x z m i j =
     (let grid_x = real_of_int (int i - int (grid_size div 2)) * grid_spacing;
          grid_z = real_of_int (int j - int (grid_size div 2)) * grid_spacing;
          distance = sqrt ((grid_x - x) ^ 2 + (grid_z - z) ^ 2);
          distance = max distance 0.1
      in - m / distance ^ 2 * 2.0)"

definition add_mass_to_grid :: "real \<Rightarrow> real \<Rightarrow> real \<Rightarrow> real list list \<Rightarrow> error + real list list" where
  "add_mass_to_grid x z m g =
     foldE (\<lambda>i. foldE (\<lambda>j. add_cell i j (curvature x z m i j)) [0..<grid_size]) [0..<grid_size] g"

definition planet_xz :: "planet \<Rightarrow> real \<times> real" where
  "planet_xz p =
     (if orbit_radius p = 0 then (0, 0)
      else (orbit_radius p * cos (current_angle p), orbit_radius p * sin (current_angle p)))"

definition update_spacetime_grid :: "sim \<Rightarrow> error + sim" where
  "update_spacetime_grid s =
     (case foldE (\<lambda>p. add_mass_to_grid (fst (planet_xz p)) (snd (planet_xz p)) (planet.radius p ^ 2))
                 (planets s) (map (map (\<lambda>_. 0)) (grid_heights s)) of
        Inl e \<Rightarrow> Inl e
      | Inr g \<Rightarrow>
          (case foldE (\<lambda>a. add_mass_to_grid (vx (custom_mass.position (objs s a)))
                                            (vz (custom_mass.position (objs s a)))
                                            (custom_mass.mass (objs s a)))
                      (custom_masses s) g of
             Inl e \<Rightarrow> Inl e
           | Inr g' \<Rightarrow> Inr (s\<lparr>grid_heights := g'\<rparr>)))"

section \<open>Picking: \<open>screen_to_world\<close>, \<open>find_nearest_mass\<close>, \<open>spawn_custom_mass\<close>\<close>

text \<open>
  The OpenGL state read by \<open>screen_to_world\<close> is a parameter: \<open>viewport3\<close> is
  \<open>viewport[3]\<close>, and \<open>gluUnProject x y z\<close> is the library call with the current
  matrices and viewport, \<open>None\<close> when it raises.
\<close>

record gl =
  viewport3 :: int
  gluUnProject :: "real \<Rightarrow> real \<Rightarrow> real \<Rightarrow> vec3 option"

definition screen_to_world :: "gl \<Rightarrow> int \<Rightarrow> int \<Rightarrow> vec3" where
  "screen_to_world env screen_x screen_y =
     (let opengl_y = viewport3 env - screen_y
      in case gluUnProject env (real_of_int screen_x) (real_of_int opengl_y) 0 of
           None \<Rightarrow> (0, 0, 0)
         | Some near_point \<Rightarrow>
             (case gluUnProject env (real_of_int screen_x) (real_of_int opengl_y) 1 of
                None \<Rightarrow> (0, 0, 0)
              | Some far_point \<Rightarrow>
                  if \<bar>vy far_point - vy near_point\<bar> > 0.001
                  then (let t = - vy near_point / (vy far_point - vy near_point);
                            world_x = vx near_point + t * (vx far_point - vx near_point);
                            world_z = vz near_point + t * (vz far_point - vz near_point)
                        in (world_x, 0, world_z))
                  else (0, 0, 0)))"

definition colors :: "vec3 list" where
  "colors = [(0.8, 0.2, 0.8), (1.0, 0.5, 0.0), (0.0, 1.0, 0.5), (1.0, 0.2, 0.2), (0.5, 0.5, 1.0)]"

definition spawn_custom_mass :: "real \<Rightarrow> real \<Rightarrow> sim \<Rightarrow> sim" where
  "spawn_custom_mass x z s =
     (let color = colors ! (length (custom_masses s) mod length colors);
          custom_mass = CustomMass x z (spawn_mass s) color
      in s\<lparr>objs := (objs s)(next_obj s := custom_mass),
            custom_masses := custom_masses s @ [next_obj s],
            next_obj := Suc (next_obj s)\<rparr>)"

text \<open>The XZ distance computed in the body of \<open>find_nearest_mass\<close>.\<close>

definition xz_distance :: "custom_mass \<Rightarrow> vec3 \<Rightarrow> real" where
  "xz_distance m world_pos =
     (let dx = vx (custom_mass.position m) - vx world_pos;
          dz = vz (custom_mass.position m) - vz world_pos
      in sqrt (dx * dx + dz * dz))"

text \<open>
  The scan keeps the pair \<open>(nearest, min_distance)\<close>; the result is the address of the
  mass found, or \<open>None\<close>.
\<close>

definition nearest_step :: "(nat \<Rightarrow> custom_mass) \<Rightarrow> vec3 \<Rightarrow> nat \<Rightarrow> nat option \<times> real \<Rightarrow> nat option \<times> real" where
  "nearest_step h world_pos a st =
     (let distance = xz_distance (h a) world_pos
      in if distance < snd st then (Some a, distance) else st)"

definition find_nearest_mass :: "sim \<Rightarrow> vec3 \<Rightarrow> real \<Rightarrow> nat option" where
  "find_nearest_mass s world_pos max_distance =
     fst (fold (nearest_step (objs s) world_pos) (custom_masses s) (None, max_distance))"

section \<open>The controller: \<open>reset_simulation\<close>, \<open>handle_input\<close>, \<open>update\<close>\<close>

text \<open>
  \<open>for i, planet in enumerate(self.planets)\<close> of \<open>reset_simulation\<close>:
  \<open>self.original_planets[i]\<close> raises \<open>IndexError\<close> when there is no such entry.
\<close>

definition restore_planet :: "(real \<times> real \<times> real) list \<Rightarrow> nat \<times> planet \<Rightarrow> planet list \<Rightarrow> error + planet list" where
  "restore_planet orig ip acc =
     (if fst ip < length orig
      then Inr (acc @ [(snd ip)\<lparr>current_angle := fst (orig ! fst ip),
                                orbit_radius := fst (snd (orig ! fst ip)),
                                orbit_speed := snd (snd (orig ! fst ip))\<rparr>])
      else Inl IndexError)"

definition reset_simulation :: "sim \<Rightarrow> error + sim" where
  "reset_simulation s =
     (case foldE (restore_planet (original_planets s)) (enumerate 0 (planets s)) [] of
        Inl e \<Rightarrow> Inl e
      | Inr ps \<Rightarrow>
          Inr (s\<lparr>current_time := 0, custom_masses := [], selected_mass := None, planets := ps\<rparr>))"

datatype key =
  K_ESCAPE | K_SPACE | K_PLUS | K_EQUALS | K_MINUS | K_UNDERSCORE | K_f | K_s | K_r | K_c
  | K_m | K_t | K_p | K_1 | K_2 | K_3 | K_4 | K_5 | K_DELETE | K_OTHER

datatype event =
  QUIT | KEYDOWN key | MOUSEBUTTONDOWN nat "int \<times> int" | MOUSEBUTTONUP nat
  | MOUSEMOTION "int \<times> int" | OTHER_EVENT

text \<open>
  The \<open>KEYDOWN\<close> branch for every key but \<open>K_ESCAPE\<close>. \<open>list.remove\<close> raises
  \<open>ValueError\<close> when the object is not in the list.
\<close>

definition handle_key :: "key \<Rightarrow> sim \<Rightarrow> error + sim" where
  "handle_key k s =
     (if k = K_SPACE then Inr (s\<lparr>paused := \<not> paused s\<rparr>)
      else if k = K_PLUS \<or> k = K_EQUALS then Inr (s\<lparr>camera_distance := max 10 (camera_distance s - 2)\<rparr>)
      else if k = K_MINUS \<or> k = K_UNDERSCORE then Inr (s\<lparr>camera_distance := min 100 (camera_distance s + 2)\<rparr>)
      else if k = K_f then Inr (s\<lparr>time_speed := min 5.0 (time_speed s + 0.5)\<rparr>)
      else if k = K_s then Inr (s\<lparr>time_speed := max 0.5 (time_speed s - 0.5)\<rparr>)
      else if k = K_r then reset_simulation s
      else if k = K_c then Inr (s\<lparr>custom_masses := []\<rparr>)
      else if k = K_m then Inr (s\<lparr>spawn_mode := \<not> spawn_mode s\<rparr>)
      else if k = K_t then Inr (s\<lparr>show_trails := \<not> show_trails s\<rparr>)
      else if k = K_p then Inr (s\<lparr>physics_enabled := \<not> physics_enabled s\<rparr>)
      else if k = K_1 then Inr (s\<lparr>spawn_mass := 1.0\<rparr>)
      else if k = K_2 then Inr (s\<lparr>spawn_mass := 5.0\<rparr>)
      else if k = K_3 then Inr (s\<lparr>spawn_mass := 10.0\<rparr>)
      else if k = K_4 then Inr (s\<lparr>spawn_mass := 20.0\<rparr>)
      else if k = K_5 then Inr (s\<lparr>spawn_mass := 50.0\<rparr>)
      else if k = K_DELETE then
        (case selected_mass s of
           None \<Rightarrow> Inr s
         | Some a \<Rightarrow>
             if a \<in> set (custom_masses s)
             then Inr (s\<lparr>custom_masses := remove1 a (custom_masses s), selected_mass := None\<rparr>)
             else Inl ValueError)
      else Inr s)"

definition handle_mouse_down :: "gl \<Rightarrow> nat \<Rightarrow> int \<times> int \<Rightarrow> sim \<Rightarrow> sim" where
  "handle_mouse_down env button pos s =
     (if button = 1 then
        (if spawn_mode s then
           (let world_pos = screen_to_world env (fst pos) (snd pos)
            in spawn_custom_mass (vx world_pos) (vz world_pos) s)
         else
           (let world_pos = screen_to_world env (fst pos) (snd pos);
                nearest_mass = find_nearest_mass s world_pos 2.0
            in case nearest_mass of
                 Some a \<Rightarrow>
                   (let h = (case selected_mass s of
                               Some b \<Rightarrow> (objs s)(b := (objs s b)\<lparr>is_selected := False\<rparr>)
                             | None \<Rightarrow> objs s)
                    in s\<lparr>selected_mass := Some a, objs := h(a := (h a)\<lparr>is_selected := True\<rparr>)\<rparr>)
               | None \<Rightarrow>
                   s\<lparr>mouse_pressed := True, last_mouse_x := fst pos, last_mouse_y := snd pos\<rparr>))
      else if button = 3 then
        (case selected_mass s of
           Some a \<Rightarrow>
             (let world_pos = screen_to_world env (fst pos) (snd pos);
                  m = objs s a
              in s\<lparr>objs := (objs s)(a := m\<lparr>custom_mass.position :=
                                                (vx world_pos, vy (custom_mass.position m), vz world_pos),
                                              custom_mass.velocity := (0, 0, 0),
                                              trail := []\<rparr>)\<rparr>)
         | None \<Rightarrow> s)
      else s)"

definition handle_mouse_motion :: "int \<times> int \<Rightarrow> sim \<Rightarrow> sim" where
  "handle_mouse_motion pos s =
     (if mouse_pressed s \<and> \<not> spawn_mode s then
        (let dx = fst pos - last_mouse_x s;
             dy = snd pos - last_mouse_y s
         in s\<lparr>camera_angle_y := camera_angle_y s + real_of_int dx * 0.5,
               camera_angle_x := max (- 90) (min 90 (camera_angle_x s + real_of_int dy * 0.5)),
               last_mouse_x := fst pos, last_mouse_y := snd pos\<rparr>)
      else s)"

text \<open>One event of the loop; \<open>None\<close> is \<open>return False\<close>.\<close>

definition handle_event :: "gl \<Rightarrow> event \<Rightarrow> sim \<Rightarrow> error + sim option" where
  "handle_event env ev s =
     (case ev of
        QUIT \<Rightarrow> Inr None
      | KEYDOWN k \<Rightarrow>
          (if k = K_ESCAPE then Inr None
           else (case handle_key k s of Inl e \<Rightarrow> Inl e | Inr s' \<Rightarrow> Inr (Some s')))
      | MOUSEBUTTONDOWN button pos \<Rightarrow> Inr (Some (handle_mouse_down env button pos s))
      | MOUSEBUTTONUP button \<Rightarrow> Inr (Some (if button = 1 then s\<lparr>mouse_pressed := False\<rparr> else s))
      | MOUSEMOTION pos \<Rightarrow> Inr (Some (handle_mouse_motion pos s))
      | OTHER_EVENT \<Rightarrow> Inr (Some s))"

text \<open>
  \<open>handle_input\<close> over the events of \<open>pygame.event.get()\<close>: the result is the returned
  flag and the state.
\<close>

fun handle_input :: "gl \<Rightarrow> event list \<Rightarrow> sim \<Rightarrow> error + bool \<times> sim" where
  "handle_input env [] s = Inr (True, s)"
| "handle_input env (ev # evs) s =
     (case handle_event env ev s of
        Inl e \<Rightarrow> Inl e
      | Inr None \<Rightarrow> Inr (False, s)
      | Inr (Some s') \<Rightarrow> handle_input env evs s')"

text \<open>The phase advance of one planet in \<open>update\<close>.\<close>

definition advance_planet :: "real \<Rightarrow> real \<Rightarrow> planet \<Rightarrow> planet" where
  "advance_planet dt ts p =
     (let a = current_angle p + orbit_speed p * dt * ts
      in p\<lparr>current_angle := (if a > 2 * pi then a - 2 * pi else a)\<rparr>)"

definition update :: "real \<Rightarrow> sim \<Rightarrow> error + sim" where
  "update dt s =
     (if \<not> paused s then
        (let s1 = s\<lparr>current_time := current_time s + dt * time_speed s\<rparr>;
             s2 = s1\<lparr>planets := map_tail (advance_planet dt (time_speed s1)) (planets s1)\<rparr>
         in case apply_gravitational_forces (dt * time_speed s2) s2 of
              Inl e \<Rightarrow> Inl e
            | Inr s3 \<Rightarrow> update_spacetime_grid s3)
      else Inr s)"

section \<open>The constructor\<close>

definition init_planets :: "planet list" where
  "init_planets =
     [Planet 2.0 0.0 0.0 0.1 (1.0, 1.0, 0.2) ''Sun'',
      Planet 0.3 5.0 2.0 0.5 (0.8, 0.7, 0.6) ''Mercury'',
      Planet 0.5 7.0 1.5 0.3 (1.0, 0.8, 0.4) ''Venus'',
      Planet 0.6 10.0 1.0 0.8 (0.2, 0.5, 1.0) ''Earth'',
      Planet 0.4 13.0 0.8 0.7 (1.0, 0.3, 0.2) ''Mars'',
      Planet 1.5 18.0 0.5 1.2 (1.0, 0.7, 0.3) ''Jupiter'',
      Planet 1.2 23.0 0.3 1.0 (1.0, 0.9, 0.6) ''Saturn'',
      Planet 0.8 28.0 0.2 0.6 (0.4, 0.8, 1.0) ''Uranus'',
      Planet 0.7 33.0 0.15 0.5 (0.2, 0.3, 1.0) ''Neptune'']"

text \<open>
  The state after \<open>__init__\<close>. No custom mass exists yet; the content of the store at
  unused addresses is immaterial and fixed to a default object.
\<close>

definition init_sim :: sim where
  "init_sim =
     \<lparr>width = 1200, height = 800,
      camera_angle_x = 30.0, camera_angle_y = 0.0, camera_distance = 50.0,
      mouse_pressed = False, last_mouse_x = 0, last_mouse_y = 0,
      time_speed = 1.0, current_time = 0.0, paused = False,
      grid_heights = replicate grid_size (replicate grid_size 0),
      objs = (\<lambda>_. CustomMass 0 0 0 (0, 0, 0)), next_obj = 0,
      custom_masses = [], selected_mass = None,
      spawn_mode = False, spawn_mass = 5.0, show_trails = True, physics_enabled = True,
      planets = init_planets,
      original_planets = map (\<lambda>p. (current_angle p, orbit_radius p, orbit_speed p)) init_planets\<rparr>"

section \<open>The shape of the grid\<close>

text \<open>
  The array \<open>grid_heights\<close> is created as \<open>np.zeros((grid_size, grid_size))\<close> and only
  ever written cell by cell: it has \<open>grid_size\<close> rows of \<open>grid_size\<close> cells.
\<close>

definition grid_shape :: "real list list \<Rightarrow> bool" where
  "grid_shape g = (length g = grid_size \<and> list_all (\<lambda>row. length row = grid_size) g)"

section \<open>Well-formed states\<close>

text \<open>
  What holds of every state the program reaches: a custom mass stands in the list once,
  at an address already handed out, and its mass is not zero; the spawn mass is not
  zero; there is a planet; every planet has its snapshot; and the grid has its shape.
\<close>

definition state_inv :: "sim \<Rightarrow> bool" where
  "state_inv s =
     (distinct (custom_masses s)
      \<and> list_all (\<lambda>a. a < next_obj s) (custom_masses s)
      \<and> list_all (\<lambda>a. custom_mass.mass (objs s a) \<noteq> 0) (custom_masses s)
      \<and> spawn_mass s \<noteq> 0
      \<and> planets s \<noteq> []
      \<and> length (planets s) \<le> length (original_planets s)
      \<and> grid_shape (grid_heights s))"

section \<open>Repeated solver steps\<close>

text \<open>\<open>n\<close> calls of \<open>apply_gravitational_forces\<close> in a row, stopping at an exception.\<close>

fun solver_steps :: "nat \<Rightarrow> real \<Rightarrow> sim \<Rightarrow> error + sim" where
  "solver_steps 0 dt s = Inr s"
| "solver_steps (Suc n) dt s =
     (case apply_gravitational_forces dt s of Inl e \<Rightarrow> Inl e | Inr s' \<Rightarrow> solver_steps n dt s')"

section \<open>The laws the solver is compared with\<close>

text \<open>The XZ position of a custom mass.\<close>

definition xz :: "custom_mass \<Rightarrow> real \<times> real" where
  "xz m = (vx (custom_mass.position m), vz (custom_mass.position m))"

text \<open>
  An inverse-square term of strength \<open>k\<close> felt at \<open>p\<close> from a source at \<open>q\<close>:
  magnitude \<open>k / d\<^sup>2\<close> along the unit vector from \<open>p\<close> to \<open>q\<close>, and zero when the
  separation \<open>d\<close> is skipped.
\<close>

definition newton_term :: "(real \<Rightarrow> bool) \<Rightarrow> real \<Rightarrow> real \<times> real \<Rightarrow> real \<times> real \<Rightarrow> real \<times> real" where
  "newton_term skip k p q =
     (let dx = fst q - fst p; dz = snd q - snd p; d = sqrt (dx * dx + dz * dz)
      in if skip d then (0, 0) else (k / d ^ 2 * dx / d, k / d ^ 2 * dz / d))"

text \<open>
  The net force on the mass at index \<open>i\<close> of the list, for masses as they are in the
  store \<open>h\<close>: the pairwise terms \<open>G m\<^sub>i m\<^sub>j / d\<^sup>2\<close> of every other index \<open>j\<close>, and the
  attraction toward the origin with the central body's mass \<open>radius\<^sup>3 * 10\<close>.
\<close>

definition net_force :: "(real \<Rightarrow> bool) \<Rightarrow> planet list \<Rightarrow> (nat \<Rightarrow> custom_mass) \<Rightarrow> nat list \<Rightarrow> nat \<Rightarrow> real \<times> real" where
  "net_force skip ps h cms i =
     (let m1 = h (cms ! i);
          others = filter (\<lambda>jb. fst jb \<noteq> i) (enumerate 0 cms);
          pair = (\<lambda>jb. newton_term skip (G * custom_mass.mass m1 * custom_mass.mass (h (snd jb)))
                           (xz m1) (xz (h (snd jb))));
          sun = newton_term skip (G * custom_mass.mass m1 * (planet.radius (hd ps) ^ 3 * 10)) (xz m1) (0, 0)
      in (sum_list (map (\<lambda>jb. fst (pair jb)) others) + fst sun,
          sum_list (map (\<lambda>jb. snd (pair jb)) others) + snd sun))"

text \<open>
  The motion of a mass under the force \<open>F\<close>: \<open>v += (F / m) dt\<close>, then \<open>v *= damping\<close>,
  then \<open>p += v dt\<close>, and the new \<open>(x, z)\<close> pushed on the trail.
\<close>

definition moved :: "real \<Rightarrow> real \<times> real \<Rightarrow> custom_mass \<Rightarrow> custom_mass" where
  "moved dt F m =
     (let v0 = (vx (custom_mass.velocity m) + fst F / custom_mass.mass m * dt) * damping;
          v2 = (vz (custom_mass.velocity m) + snd F / custom_mass.mass m * dt) * damping;
          p0 = vx (custom_mass.position m) + v0 * dt;
          p2 = vz (custom_mass.position m) + v2 * dt
      in m\<lparr>custom_mass.velocity := (v0, vy (custom_mass.velocity m), v2),
            custom_mass.position := (p0, vy (custom_mass.position m), p2),
            trail := push_trail (trail m) (p0, p2)\<rparr>)"

text \<open>
  Which separations contribute nothing: the guard of the code (\<open>distance > 0.1\<close> is
  required for a contribution), and the one the specification words (\<open>d < 0.1\<close> is
  skipped).
\<close>

definition floor_skip :: "real \<Rightarrow> bool" where
  "floor_skip d = (d \<le> 0.1)"

definition claimed_skip :: "real \<Rightarrow> bool" where
  "claimed_skip d = (d < 0.1)"

text \<open>
  The store seen while the first pass works on one mass: the masses at the addresses
  already done are as in the store \<open>h'\<close> after the pass, all others as in the store
  \<open>h\<close> before it.
\<close>

definition mixed :: "nat list \<Rightarrow> (nat \<Rightarrow> custom_mass) \<Rightarrow> (nat \<Rightarrow> custom_mass) \<Rightarrow> nat \<Rightarrow> custom_mass" where
  "mixed done_addrs h' h b = (if b \<in> set done_addrs then h' b else h b)"


text \<open>
  The perturbation vector of a planet: the terms \<open>mass / d\<^sup>2 * 0.001\<close> of all custom
  masses, directed from the planet's XZ position to the mass.
\<close>

definition perturbation :: "(real \<Rightarrow> bool) \<Rightarrow> (nat \<Rightarrow> custom_mass) \<Rightarrow> nat list \<Rightarrow> planet \<Rightarrow> real \<times> real" where
  "perturbation skip h cms p =
     (let planet_pos = (orbit_radius p * cos (current_angle p), orbit_radius p * sin (current_angle p));
          term = (\<lambda>a. newton_term skip (custom_mass.mass (h a) * 0.001) planet_pos (xz (h a)))
      in (sum_list (map (\<lambda>a. fst (term a)) cms), sum_list (map (\<lambda>a. snd (term a)) cms)))"

text \<open>
  What the second pass does to the planets, for a given rule of skipped separations: the
  first planet is untouched; of every other planet the orbit speed and orbit radius are
  scaled when a component of the perturbation exceeds 0.001 in magnitude, and nothing
  else changes. The custom masses are where the first pass of the same step has put them.
\<close>

definition perturbation_law :: "(real \<Rightarrow> bool) \<Rightarrow> sim \<Rightarrow> sim \<Rightarrow> bool" where
  "perturbation_law skip s s' =
     (length (planets s') = length (planets s)
      \<and> (\<forall>k < length (planets s).
            planets s' ! k =
              (if k = 0 then planets s ! k
               else (let p = planets s ! k;
                         t = perturbation skip (objs s') (custom_masses s) p
                     in if \<bar>fst t\<bar> > 0.001 \<or> \<bar>snd t\<bar> > 0.001
                        then p\<lparr>orbit_speed := orbit_speed p * (1 + fst t * 0.01),
                                orbit_radius := orbit_radius p * (1 + snd t * 0.001)\<rparr>
                        else p))))"

section \<open>Loop invariants\<close>

text \<open>
  The invariant of the scan of \<open>find_nearest_mass\<close> after the masses \<open>xs\<close>, with the
  pair \<open>(nearest, min_distance)\<close> in \<open>st\<close>: \<open>min_distance\<close> is at most the limit and
  at most every distance seen, and \<open>nearest\<close> is the first mass seen at that distance,
  if one is below the limit.
\<close>

definition scan_inv :: "(nat \<Rightarrow> custom_mass) \<Rightarrow> vec3 \<Rightarrow> real \<Rightarrow> nat list \<Rightarrow> nat option \<times> real \<Rightarrow> bool" where
  "scan_inv h wp maxd xs st =
     (snd st \<le> maxd
      \<and> (\<forall>j < length xs. snd st \<le> xz_distance (h (xs ! j)) wp)
      \<and> (case fst st of
            None \<Rightarrow> snd st = maxd
          | Some a \<Rightarrow>
              (\<exists>k < length xs. xs ! k = a \<and> xz_distance (h a) wp = snd st \<and> snd st < maxd
                 \<and> (\<forall>j < k. snd st < xz_distance (h (xs ! j)) wp))))"

section \<open>Example inputs\<close>

text \<open>
  An OpenGL state whose unprojection ray through the pixel \<open>(600, 400)\<close> runs from
  \<open>(6, 2, 4)\<close> down to \<open>(10, -2, 4)\<close> and meets the ground at \<open>(8, 0, 4)\<close>,
  and one whose rays are parallel to the ground plane.
\<close>

definition ex_env :: gl where
  "ex_env = \<lparr>viewport3 = 800, gluUnProject = (\<lambda>x y z. Some (x / 100 + 4 * z, 2 - 4 * z, y / 100))\<rparr>"

definition ex_env_parallel :: gl where
  "ex_env_parallel = \<lparr>viewport3 = 800, gluUnProject = (\<lambda>x y z. Some (z, 1, 0))\<rparr>"

text \<open>The initial state with one mass spawned at \<open>(3, 4)\<close>, physics switched off.\<close>

definition ex_physics_off :: sim where
  "ex_physics_off = (spawn_custom_mass 3 4 init_sim)\<lparr>physics_enabled := False\<rparr>"

text \<open>
  A state in which every configuration value differs from its start value, Mercury's
  orbit has been perturbed, and one mass exists and is selected.
\<close>

definition ex_configured :: sim where
  "ex_configured =
     (spawn_custom_mass 3 4 init_sim)
       \<lparr>camera_angle_x := 45, camera_angle_y := 10, camera_distance := 60,
        time_speed := 2.5, current_time := 7, paused := True,
        selected_mass := Some 0, spawn_mode := True, spawn_mass := 20,
        show_trails := False, physics_enabled := False,
        planets := (init_planets[1 := (init_planets ! 1)\<lparr>orbit_radius := 5.5\<rparr>])\<rparr>"

text \<open>
  Spawn mode on, a click that spawns a mass at \<open>(8, 0, 4)\<close>, spawn mode off, a click
  on the same pixel that selects this mass.
\<close>

definition ex_spawn_and_select :: "event list" where
  "ex_spawn_and_select =
     [KEYDOWN K_m, MOUSEBUTTONDOWN 1 (600, 400), KEYDOWN K_m, MOUSEBUTTONDOWN 1 (600, 400)]"

text \<open>
  Four masses at \<open>(3, 4)\<close>, \<open>(0, 1.5)\<close>, \<open>(1, 0)\<close> and \<open>(0, -1)\<close>: their distances
  to the origin are 5, 1.5, 1 and 1.
\<close>

definition ex_four :: sim where
  "ex_four =
     spawn_custom_mass 0 (- 1) (spawn_custom_mass 1 0
       (spawn_custom_mass 0 1.5 (spawn_custom_mass 3 4 init_sim)))"



text \<open>
  Two masses of mass 5 at rest at \<open>(1, 0)\<close> and \<open>(-1, 0)\<close>, mirrored at the origin.
\<close>

definition ex_mirror :: sim where
  "ex_mirror = spawn_custom_mass (- 1) 0 (spawn_custom_mass 1 0 init_sim)"

text \<open>
  A mass of mass 5 at \<open>(5, 0.1)\<close>, exactly 0.1 from Mercury at \<open>(5, 0)\<close>, with a mass
  of mass 20 at \<open>(7.5, 0.15)\<close> whose pull on the first cancels the pull of the sun;
  and a mass of mass 50 at rest at the origin.
\<close>

definition ex_beside_mercury :: sim where
  "ex_beside_mercury =
     spawn_custom_mass 7.5 0.15 ((spawn_custom_mass 5 0.1 init_sim)\<lparr>spawn_mass := 20\<rparr>)"

definition ex_heavy_centre :: sim where
  "ex_heavy_centre = spawn_custom_mass 0 0 (init_sim\<lparr>spawn_mass := 50\<rparr>)"

text \<open>The initial state with one mass of mass 5 spawned at \<open>(3, 4)\<close>.\<close>

definition ex_one_mass :: sim where
  "ex_one_mass = spawn_custom_mass 3 4 init_sim"

section \<open>Physics disabled\<close>

text \<open>
  Claim C7. When physics is disabled, \<open>apply_gravitational_forces\<close> returns at once:
  the state it leaves is the state it was given, so the position, velocity and trail of
  every custom mass and the orbit radius and angular speed of every planet are unchanged.
\<close>

theorem physics_disabled_noop:
  "\<not> physics_enabled s \<Longrightarrow> apply_gravitational_forces dt s = Inr s"
  by (simp add: apply_gravitational_forces_def)

theorem physics_disabled_noop_witness:
  "\<not> physics_enabled ex_physics_off
   \<and> custom_masses ex_physics_off = [0]
   \<and> apply_gravitational_forces 1 ex_physics_off = Inr ex_physics_off"
proof -
  have off: "\<not> physics_enabled ex_physics_off"
    by (simp add: ex_physics_off_def)
  have "custom_masses ex_physics_off = [0]"
    by (simp add: ex_physics_off_def spawn_custom_mass_def init_sim_def)
  with off physics_disabled_noop [OF off, of 1] show ?thesis
    by simp
qed

section \<open>Reset\<close>

lemma foldE_restore_planet:
  "length ps + k \<le> length orig \<Longrightarrow>
   foldE (restore_planet orig) (enumerate k ps) acc =
   Inr (acc @ map (\<lambda>(i, p). p\<lparr>current_angle := fst (orig ! i),
                             orbit_radius := fst (snd (orig ! i)),
                             orbit_speed := snd (snd (orig ! i))\<rparr>) (enumerate k ps))"
  by (induction ps arbitrary: k acc) (simp_all add: restore_planet_def)

text \<open>
  Claim C10. When every planet has its snapshot, \<open>reset_simulation\<close> returns the state
  it was given with the clock set to zero, no custom masses, no selection, and each
  planet's angle, orbit radius and orbit speed taken from its snapshot. Everything else
  is as before: the pause flag, the time scale, the spawn mass, the spawn mode, the trail
  visibility, the physics flag and the camera angles and distance keep the values they
  had, whatever these were at start.
\<close>

theorem reset_changes_only:
  assumes "length (planets s) \<le> length (original_planets s)"
  shows "\<exists>s' ps. reset_simulation s = Inr s'
          \<and> s' = s\<lparr>current_time := 0, custom_masses := [], selected_mass := None, planets := ps\<rparr>
          \<and> length ps = length (planets s)
          \<and> (\<forall>i < length ps. ps ! i = (planets s ! i)
                \<lparr>current_angle := fst (original_planets s ! i),
                 orbit_radius := fst (snd (original_planets s ! i)),
                 orbit_speed := snd (snd (original_planets s ! i))\<rparr>)
          \<and> paused s' = paused s \<and> time_speed s' = time_speed s
          \<and> spawn_mass s' = spawn_mass s \<and> spawn_mode s' = spawn_mode s
          \<and> show_trails s' = show_trails s \<and> physics_enabled s' = physics_enabled s
          \<and> camera_angle_x s' = camera_angle_x s \<and> camera_angle_y s' = camera_angle_y s
          \<and> camera_distance s' = camera_distance s"
proof -
  let ?ps = "map (\<lambda>(i, p). p\<lparr>current_angle := fst (original_planets s ! i),
                             orbit_radius := fst (snd (original_planets s ! i)),
                             orbit_speed := snd (snd (original_planets s ! i))\<rparr>)
                 (enumerate 0 (planets s))"
  let ?s' = "s\<lparr>current_time := 0, custom_masses := [], selected_mass := None, planets := ?ps\<rparr>"
  have run: "reset_simulation s = Inr ?s'"
    using assms by (simp add: reset_simulation_def foldE_restore_planet)
  have len: "length ?ps = length (planets s)"
    by simp
  have each: "\<forall>i < length ?ps. ?ps ! i = (planets s ! i)
                \<lparr>current_angle := fst (original_planets s ! i),
                 orbit_radius := fst (snd (original_planets s ! i)),
                 orbit_speed := snd (snd (original_planets s ! i))\<rparr>"
    by (simp add: nth_enumerate_eq)
  have flags: "paused ?s' = paused s \<and> time_speed ?s' = time_speed s
          \<and> spawn_mass ?s' = spawn_mass s \<and> spawn_mode ?s' = spawn_mode s
          \<and> show_trails ?s' = show_trails s \<and> physics_enabled ?s' = physics_enabled s
          \<and> camera_angle_x ?s' = camera_angle_x s \<and> camera_angle_y ?s' = camera_angle_y s
          \<and> camera_distance ?s' = camera_distance s"
    by simp
  from run len each flags show ?thesis
    by blast
qed

theorem reset_changes_only_witness:
  "length (planets ex_configured) \<le> length (original_planets ex_configured)
   \<and> \<not> paused init_sim \<and> physics_enabled init_sim \<and> time_speed init_sim = 1
   \<and> (\<exists>s'. reset_simulation ex_configured = Inr s'
         \<and> paused s' \<and> \<not> physics_enabled s' \<and> time_speed s' = 2.5 \<and> spawn_mass s' = 20
         \<and> spawn_mode s' \<and> \<not> show_trails s' \<and> camera_angle_x s' = 45
         \<and> camera_angle_y s' = 10 \<and> camera_distance s' = 60
         \<and> current_time s' = 0 \<and> custom_masses s' = [] \<and> selected_mass s' = None
         \<and> orbit_radius (planets s' ! 1) = 5)"
proof -
  have len: "length (planets ex_configured) \<le> length (original_planets ex_configured)"
    by (simp add: ex_configured_def spawn_custom_mass_def init_sim_def init_planets_def)
  have start: "\<not> paused init_sim \<and> physics_enabled init_sim \<and> time_speed init_sim = 1"
    by (simp add: init_sim_def)
  have orig: "fst (snd (original_planets ex_configured ! 1)) = 5"
    by (simp add: ex_configured_def spawn_custom_mass_def init_sim_def init_planets_def Planet_def)
  have cfg: "paused ex_configured \<and> \<not> physics_enabled ex_configured
      \<and> time_speed ex_configured = 2.5 \<and> spawn_mass ex_configured = 20
      \<and> spawn_mode ex_configured \<and> \<not> show_trails ex_configured
      \<and> camera_angle_x ex_configured = 45 \<and> camera_angle_y ex_configured = 10
      \<and> camera_distance ex_configured = 60 \<and> length (planets ex_configured) = 9"
    by (simp add: ex_configured_def spawn_custom_mass_def init_sim_def init_planets_def)
  from reset_changes_only [OF len] obtain s' ps where
    r: "reset_simulation ex_configured = Inr s'"
    and s': "s' = ex_configured\<lparr>current_time := 0, custom_masses := [], selected_mass := None, planets := ps\<rparr>"
    and l: "length ps = length (planets ex_configured)"
    and e: "\<forall>i < length ps. ps ! i = (planets ex_configured ! i)
                \<lparr>current_angle := fst (original_planets ex_configured ! i),
                 orbit_radius := fst (snd (original_planets ex_configured ! i)),
                 orbit_speed := snd (snd (original_planets ex_configured ! i))\<rparr>"
    by blast
  from l cfg have "1 < length ps" by simp
  with e orig have "orbit_radius (ps ! 1) = 5" by simp
  with r s' cfg have "reset_simulation ex_configured = Inr s'
         \<and> paused s' \<and> \<not> physics_enabled s' \<and> time_speed s' = 2.5 \<and> spawn_mass s' = 20
         \<and> spawn_mode s' \<and> \<not> show_trails s' \<and> camera_angle_x s' = 45
         \<and> camera_angle_y s' = 10 \<and> camera_distance s' = 60
         \<and> current_time s' = 0 \<and> custom_masses s' = [] \<and> selected_mass s' = None
         \<and> orbit_radius (planets s' ! 1) = 5"
    by simp
  with len start show ?thesis by blast
qed

section \<open>Picking\<close>

text \<open>
  Claim C8. \<open>screen_to_world\<close> unprojects the pixel at depth 0 (near) and depth 1 (far).
  When the y-components of the two points differ by more than 0.001 in magnitude, it
  returns the point \<open>near + t (far - near)\<close> for \<open>t = - near.y / (far.y - near.y)\<close>,
  the parameter at which the line meets the plane \<open>y = 0\<close>, with y-component 0;
  when they differ by at most 0.001 it returns the origin.
\<close>

theorem screen_to_world_ground:
  assumes "gluUnProject env (real_of_int sx) (real_of_int (viewport3 env - sy)) 0 = Some near_point"
      and "gluUnProject env (real_of_int sx) (real_of_int (viewport3 env - sy)) 1 = Some far_point"
  shows "(\<bar>vy far_point - vy near_point\<bar> > 0.001 \<longrightarrow>
            (let t = - vy near_point / (vy far_point - vy near_point)
             in screen_to_world env sx sy =
                  (vx near_point + t * (vx far_point - vx near_point), 0,
                   vz near_point + t * (vz far_point - vz near_point))
                \<and> vy near_point + t * (vy far_point - vy near_point) = 0
                \<and> vy (screen_to_world env sx sy) = 0))
       \<and> (\<bar>vy far_point - vy near_point\<bar> \<le> 0.001 \<longrightarrow> screen_to_world env sx sy = (0, 0, 0))"
  using assms by (auto simp: screen_to_world_def Let_def vy_def)

theorem screen_to_world_ground_witness:
  "gluUnProject ex_env (real_of_int 600) (real_of_int (viewport3 ex_env - 400)) 0 = Some (6, 2, 4)
   \<and> gluUnProject ex_env (real_of_int 600) (real_of_int (viewport3 ex_env - 400)) 1 = Some (10, - 2, 4)
   \<and> \<bar>vy (10, - 2, 4) - vy (6, 2, 4 :: real)\<bar> > (0.001 :: real)
   \<and> screen_to_world ex_env 600 400 = (8, 0, 4)
   \<and> gluUnProject ex_env_parallel (real_of_int 600) (real_of_int (viewport3 ex_env_parallel - 400)) 0 = Some (0, 1, 0)
   \<and> gluUnProject ex_env_parallel (real_of_int 600) (real_of_int (viewport3 ex_env_parallel - 400)) 1 = Some (1, 1, 0)
   \<and> \<bar>vy (1, 1, 0) - vy (0, 1, 0 :: real)\<bar> \<le> (0.001 :: real)
   \<and> screen_to_world ex_env_parallel 600 400 = (0, 0, 0)"
proof -
  have n: "gluUnProject ex_env (real_of_int 600) (real_of_int (viewport3 ex_env - 400)) 0 = Some (6, 2, 4)"
    by (simp add: ex_env_def)
  have f: "gluUnProject ex_env (real_of_int 600) (real_of_int (viewport3 ex_env - 400)) 1 = Some (10, - 2, 4)"
    by (simp add: ex_env_def)
  have n': "gluUnProject ex_env_parallel (real_of_int 600) (real_of_int (viewport3 ex_env_parallel - 400)) 0 = Some (0, 1, 0)"
    by (simp add: ex_env_parallel_def)
  have f': "gluUnProject ex_env_parallel (real_of_int 600) (real_of_int (viewport3 ex_env_parallel - 400)) 1 = Some (1, 1, 0)"
    by (simp add: ex_env_parallel_def)
  have steep: "\<bar>vy (10, - 2, 4) - vy (6, 2, 4 :: real)\<bar> > (0.001 :: real)"
    by (simp add: vy_def)
  have flat: "\<bar>vy (1, 1, 0) - vy (0, 1, 0 :: real)\<bar> \<le> (0.001 :: real)"
    by (simp add: vy_def)
  have "screen_to_world ex_env 600 400 = (8, 0, 4)"
    using screen_to_world_ground [OF n f] steep by (simp add: Let_def vx_def vy_def vz_def)
  moreover have "screen_to_world ex_env_parallel 600 400 = (0, 0, 0)"
    using screen_to_world_ground [OF n' f'] flat by simp
  ultimately show ?thesis
    using n f n' f' steep flat by blast
qed

section \<open>Orbital kinematics\<close>

text \<open>
  Claim C6, as stated: after every advance of a non-central planet the phase angle lies
  in \<open>[0, 2 pi)\<close>. It fails: Mercury (angular speed 2) at angle 0, advanced with
  \<open>dt = 2\<close> at time scale 5, moves by 20 and is wrapped once, to \<open>20 - 2 pi\<close>,
  which is above \<open>2 pi\<close>.
\<close>

theorem advance_angle_counterexample:
  "0 \<le> current_angle (init_planets ! 1) \<and> current_angle (init_planets ! 1) < 2 * pi
   \<and> \<not> (0 \<le> current_angle (advance_planet 2 5 (init_planets ! 1))
         \<and> current_angle (advance_planet 2 5 (init_planets ! 1)) < 2 * pi)"
proof -
  have "current_angle (advance_planet 2 5 (init_planets ! 1)) = 20 - 2 * pi"
    using pi_less_4 by (simp add: advance_planet_def init_planets_def Planet_def)
  moreover have "current_angle (init_planets ! 1) = 0"
    by (simp add: init_planets_def Planet_def)
  ultimately show ?thesis
    using pi_less_4 pi_gt_zero by simp
qed

text \<open>
  Claim C6, amended: when the phase angle before the advance lies in \<open>[0, 2 pi)\<close>,
  the increment \<open>angularSpeed * dt * timeScale\<close> lies in \<open>[0, 2 pi]\<close>, and angle plus
  increment is not exactly \<open>2 pi\<close>, the phase angle after the advance lies in
  \<open>[0, 2 pi)\<close>.
\<close>

theorem advance_angle_in_range:
  assumes "0 \<le> current_angle p" and "current_angle p < 2 * pi"
      and "0 \<le> orbit_speed p * dt * ts" and "orbit_speed p * dt * ts \<le> 2 * pi"
      and "current_angle p + orbit_speed p * dt * ts \<noteq> 2 * pi"
  shows "0 \<le> current_angle (advance_planet dt ts p) \<and> current_angle (advance_planet dt ts p) < 2 * pi"
proof (cases "current_angle p + orbit_speed p * dt * ts > 2 * pi")
  case True
  then have "current_angle (advance_planet dt ts p) = current_angle p + orbit_speed p * dt * ts - 2 * pi"
    by (simp add: advance_planet_def Let_def)
  with True assms show ?thesis by simp
next
  case False
  then have "current_angle (advance_planet dt ts p) = current_angle p + orbit_speed p * dt * ts"
    by (simp add: advance_planet_def Let_def)
  with False assms show ?thesis by simp
qed

theorem advance_angle_in_range_witness:
  "0 \<le> current_angle (init_planets ! 1)
   \<and> current_angle (init_planets ! 1) < 2 * pi
   \<and> 0 \<le> orbit_speed (init_planets ! 1) * 0.016 * 1
   \<and> orbit_speed (init_planets ! 1) * 0.016 * 1 \<le> 2 * pi
   \<and> current_angle (init_planets ! 1) + orbit_speed (init_planets ! 1) * 0.016 * 1 \<noteq> 2 * pi
   \<and> current_angle (advance_planet 0.016 1 (init_planets ! 1)) = 0.032
   \<and> 0 \<le> current_angle (advance_planet 0.016 1 (init_planets ! 1))
   \<and> current_angle (advance_planet 0.016 1 (init_planets ! 1)) < 2 * pi
   \<and> current_angle (advance_planet (3 * pi / 4) 1 ((init_planets ! 1)\<lparr>current_angle := pi\<rparr>)) = pi / 2"
proof -
  let ?p = "init_planets ! 1"
  let ?q = "(init_planets ! 1)\<lparr>current_angle := pi\<rparr>"
  have h1: "0 \<le> current_angle ?p"
    by (simp add: init_planets_def Planet_def)
  have h2: "current_angle ?p < 2 * pi"
    by (simp add: init_planets_def Planet_def)
  have h3: "0 \<le> orbit_speed ?p * 0.016 * 1"
    by (simp add: init_planets_def Planet_def)
  have h4: "orbit_speed ?p * 0.016 * 1 \<le> 2 * pi"
    using pi_ge_two by (simp add: init_planets_def Planet_def)
  have h5: "current_angle ?p + orbit_speed ?p * 0.016 * 1 \<noteq> 2 * pi"
    using pi_ge_two by (simp add: init_planets_def Planet_def)
  have val: "current_angle (advance_planet 0.016 1 ?p) = 0.032"
    using pi_ge_two by (simp add: advance_planet_def init_planets_def Planet_def)
  have wrap: "current_angle (advance_planet (3 * pi / 4) 1 ?q) = pi / 2"
    using pi_gt_zero by (simp add: advance_planet_def init_planets_def Planet_def)
  from advance_angle_in_range [OF h1 h2 h3 h4 h5] h1 h2 h3 h4 h5 val wrap show ?thesis
    by blast
qed

section \<open>Clearing all custom masses\<close>

text \<open>
  Claim C5 at a concrete run. After a mass has been spawned and selected, the key
  \<open>K_c\<close> empties the list of custom masses, but \<open>selected_mass\<close> still refers to the
  removed mass and that mass is still flagged as selected; a following \<open>K_DELETE\<close>
  then raises \<open>ValueError\<close>. The \<open>K_r\<close> and \<open>K_DELETE\<close> branches both clear the
  reference.
\<close>

theorem clear_all_keeps_selected_mass:
  "(\<exists>s'. handle_input ex_env (ex_spawn_and_select @ [KEYDOWN K_c]) init_sim = Inr (True, s')
        \<and> custom_masses s' = [] \<and> selected_mass s' = Some 0 \<and> is_selected (objs s' 0))
   \<and> handle_input ex_env (ex_spawn_and_select @ [KEYDOWN K_c, KEYDOWN K_DELETE]) init_sim
       = Inl ValueError
   \<and> (\<exists>s'. handle_input ex_env (ex_spawn_and_select @ [KEYDOWN K_r]) init_sim = Inr (True, s')
        \<and> custom_masses s' = [] \<and> selected_mass s' = None)"
  by (simp add: ex_spawn_and_select_def handle_event_def handle_key_def handle_mouse_down_def
      init_sim_def spawn_custom_mass_def screen_to_world_def ex_env_def vx_def vy_def vz_def
      find_nearest_mass_def nearest_step_def xz_distance_def CustomMass_def colors_def
      reset_simulation_def init_planets_def restore_planet_def Planet_def)

section \<open>\<open>find_nearest_mass\<close>\<close>

lemma scan_inv_step:
  assumes "scan_inv h wp maxd xs st"
  shows "scan_inv h wp maxd (xs @ [x]) (nearest_step h wp x st)"
proof (cases "xz_distance (h x) wp < snd st")
  case True
  then have st': "nearest_step h wp x st = (Some x, xz_distance (h x) wp)"
    by (simp add: nearest_step_def)
  from assms True have le: "xz_distance (h x) wp < maxd"
    by (simp add: scan_inv_def)
  from assms True have all: "\<forall>j < length xs. xz_distance (h x) wp < xz_distance (h (xs ! j)) wp"
    by (fastforce simp: scan_inv_def)
  show ?thesis
    unfolding st' scan_inv_def using le all
    by (auto simp: nth_append less_Suc_eq intro!: exI[of _ "length xs"])
next
  case False
  then have st': "nearest_step h wp x st = st"
    by (simp add: nearest_step_def)
  show ?thesis
    unfolding st' using assms False
    by (auto simp: scan_inv_def nth_append less_Suc_eq split: option.splits)
qed

lemma scan_inv_fold:
  "scan_inv h wp maxd xs (fold (nearest_step h wp) xs (None, maxd))"
proof (induction xs rule: rev_induct)
  case Nil
  show ?case by (simp add: scan_inv_def)
next
  case (snoc x xs)
  then show ?case by (simp add: scan_inv_step)
qed

text \<open>
  Claim C9. \<open>find_nearest_mass\<close> returns \<open>None\<close> exactly when every custom mass is at
  XZ distance at least \<open>max_distance\<close> from the position. When it returns a mass, this
  mass stands in the list at some index \<open>k\<close>, its distance is below \<open>max_distance\<close>
  and at most the distance of every mass of the list, and every mass before index \<open>k\<close>
  is strictly farther: among masses at the least distance the first of the list is
  returned.
\<close>

theorem find_nearest_mass_spec:
  "(find_nearest_mass s wp maxd = None \<longleftrightarrow>
      (\<forall>a \<in> set (custom_masses s). maxd \<le> xz_distance (objs s a) wp))
   \<and> (\<forall>a. find_nearest_mass s wp maxd = Some a \<longrightarrow>
         (\<exists>k < length (custom_masses s). custom_masses s ! k = a
            \<and> xz_distance (objs s a) wp < maxd
            \<and> (\<forall>j < length (custom_masses s).
                  xz_distance (objs s a) wp \<le> xz_distance (objs s (custom_masses s ! j)) wp)
            \<and> (\<forall>j < k. xz_distance (objs s a) wp < xz_distance (objs s (custom_masses s ! j)) wp)))"
proof -
  let ?st = "fold (nearest_step (objs s) wp) (custom_masses s) (None, maxd)"
  have inv: "scan_inv (objs s) wp maxd (custom_masses s) ?st"
    by (rule scan_inv_fold)
  have res: "find_nearest_mass s wp maxd = fst ?st"
    by (simp add: find_nearest_mass_def)
  have none: "fst ?st = None \<longleftrightarrow> (\<forall>a \<in> set (custom_masses s). maxd \<le> xz_distance (objs s a) wp)"
  proof
    assume "fst ?st = None"
    with inv show "\<forall>a \<in> set (custom_masses s). maxd \<le> xz_distance (objs s a) wp"
      by (auto simp: scan_inv_def in_set_conv_nth)
  next
    assume far: "\<forall>a \<in> set (custom_masses s). maxd \<le> xz_distance (objs s a) wp"
    show "fst ?st = None"
    proof (cases "fst ?st")
      case None
      then show ?thesis .
    next
      case (Some a)
      with inv obtain k where "k < length (custom_masses s)" "custom_masses s ! k = a"
        "xz_distance (objs s a) wp < maxd"
        by (auto simp: scan_inv_def)
      with far show ?thesis by (metis nth_mem not_less)
    qed
  qed
  have some: "\<forall>a. fst ?st = Some a \<longrightarrow>
         (\<exists>k < length (custom_masses s). custom_masses s ! k = a
            \<and> xz_distance (objs s a) wp < maxd
            \<and> (\<forall>j < length (custom_masses s).
                  xz_distance (objs s a) wp \<le> xz_distance (objs s (custom_masses s ! j)) wp)
            \<and> (\<forall>j < k. xz_distance (objs s a) wp < xz_distance (objs s (custom_masses s ! j)) wp))"
  proof (intro allI impI)
    fix a
    assume "fst ?st = Some a"
    with inv obtain k where k: "k < length (custom_masses s)" "custom_masses s ! k = a"
      "xz_distance (objs s a) wp = snd ?st" "snd ?st < maxd"
      "\<forall>j < k. snd ?st < xz_distance (objs s (custom_masses s ! j)) wp"
      by (auto simp: scan_inv_def)
    from inv have "\<forall>j < length (custom_masses s).
        snd ?st \<le> xz_distance (objs s (custom_masses s ! j)) wp"
      by (simp add: scan_inv_def)
    with k show "\<exists>k < length (custom_masses s). custom_masses s ! k = a
            \<and> xz_distance (objs s a) wp < maxd
            \<and> (\<forall>j < length (custom_masses s).
                  xz_distance (objs s a) wp \<le> xz_distance (objs s (custom_masses s ! j)) wp)
            \<and> (\<forall>j < k. xz_distance (objs s a) wp < xz_distance (objs s (custom_masses s ! j)) wp)"
      by (intro exI[of _ k]) simp
  qed
  from none some res show ?thesis by simp
qed


lemma sqrt_25: "sqrt 25 = 5"
  by (rule real_sqrt_unique) simp_all

lemma sqrt_9_4: "sqrt (9 / 4) = 3 / 2"
  by (rule real_sqrt_unique) (simp_all add: power2_eq_square)

lemma ex_four_masses: "custom_masses ex_four = [0, 1, 2, 3]"
  by (simp add: ex_four_def spawn_custom_mass_def init_sim_def)

lemma ex_four_distances:
  "xz_distance (objs ex_four 0) (0, 0, 0) = 5"
  "xz_distance (objs ex_four (Suc 0)) (0, 0, 0) = 3 / 2"
  "xz_distance (objs ex_four 2) (0, 0, 0) = 1"
  "xz_distance (objs ex_four 3) (0, 0, 0) = 1"
  by (simp_all add: ex_four_def spawn_custom_mass_def init_sim_def CustomMass_def
      xz_distance_def vx_def vz_def sqrt_25 sqrt_9_4)

theorem find_nearest_mass_spec_witness:
  "find_nearest_mass ex_four (0, 0, 0) 2 = Some 2
   \<and> (\<exists>k < length (custom_masses ex_four). custom_masses ex_four ! k = 2
         \<and> xz_distance (objs ex_four 2) (0, 0, 0) < 2
         \<and> (\<forall>j < length (custom_masses ex_four).
               xz_distance (objs ex_four 2) (0, 0, 0)
                 \<le> xz_distance (objs ex_four (custom_masses ex_four ! j)) (0, 0, 0))
         \<and> (\<forall>j < k. xz_distance (objs ex_four 2) (0, 0, 0)
                 < xz_distance (objs ex_four (custom_masses ex_four ! j)) (0, 0, 0)))
   \<and> xz_distance (objs ex_four 3) (0, 0, 0) = xz_distance (objs ex_four 2) (0, 0, 0)
   \<and> find_nearest_mass ex_four (0, 0, 0) (1 / 2) = None"
proof -
  have hit: "find_nearest_mass ex_four (0, 0, 0) 2 = Some 2"
    by (simp add: find_nearest_mass_def ex_four_masses nearest_step_def ex_four_distances)
  have far: "\<forall>a \<in> set (custom_masses ex_four). 1 / 2 \<le> xz_distance (objs ex_four a) (0, 0, 0)"
    by (simp add: ex_four_masses ex_four_distances)
  have tie: "xz_distance (objs ex_four 3) (0, 0, 0) = xz_distance (objs ex_four 2) (0, 0, 0)"
    by (simp add: ex_four_distances)
  from find_nearest_mass_spec [of ex_four "(0, 0, 0)" 2] hit
  have "\<exists>k < length (custom_masses ex_four). custom_masses ex_four ! k = 2
         \<and> xz_distance (objs ex_four 2) (0, 0, 0) < 2
         \<and> (\<forall>j < length (custom_masses ex_four).
               xz_distance (objs ex_four 2) (0, 0, 0)
                 \<le> xz_distance (objs ex_four (custom_masses ex_four ! j)) (0, 0, 0))
         \<and> (\<forall>j < k. xz_distance (objs ex_four 2) (0, 0, 0)
                 < xz_distance (objs ex_four (custom_masses ex_four ! j)) (0, 0, 0))"
    by blast
  moreover from find_nearest_mass_spec [of ex_four "(0, 0, 0)" "1 / 2"] far
  have "find_nearest_mass ex_four (0, 0, 0) (1 / 2) = None"
    by blast
  ultimately show ?thesis
    using hit tie by blast
qed

section \<open>The first pass of the gravity solver\<close>

lemma add_pair_force_eq:
  "add_pair_force m1 m2 f =
     (fst f + fst (newton_term floor_skip (G * custom_mass.mass m1 * custom_mass.mass m2) (xz m1) (xz m2)),
      snd f + snd (newton_term floor_skip (G * custom_mass.mass m1 * custom_mass.mass m2) (xz m1) (xz m2)))"
  by (simp add: add_pair_force_def newton_term_def xz_def Let_def not_less floor_skip_def)

lemma fold_pair_forces:
  "fold (\<lambda>(j, b) f. if i \<noteq> j then add_pair_force m1 (h b) f else f) E f0 =
     (fst f0 + sum_list (map (\<lambda>jb. fst (newton_term floor_skip
                 (G * custom_mass.mass m1 * custom_mass.mass (h (snd jb))) (xz m1) (xz (h (snd jb)))))
               (filter (\<lambda>jb. fst jb \<noteq> i) E)),
      snd f0 + sum_list (map (\<lambda>jb. snd (newton_term floor_skip
                 (G * custom_mass.mass m1 * custom_mass.mass (h (snd jb))) (xz m1) (xz (h (snd jb)))))
               (filter (\<lambda>jb. fst jb \<noteq> i) E)))"
proof (induction E arbitrary: f0)
  case Nil
  show ?case by simp
next
  case (Cons e E)
  obtain j b where e: "e = (j, b)" by (cases e)
  show ?case
    by (simp add: e Cons.IH add_pair_force_eq add.assoc)
qed

lemma add_sun_force_eq:
  assumes "ps \<noteq> []"
  shows "add_sun_force ps m1 f =
     Inr (fst f + fst (newton_term floor_skip (G * custom_mass.mass m1 * (planet.radius (hd ps) ^ 3 * 10)) (xz m1) (0, 0)),
          snd f + snd (newton_term floor_skip (G * custom_mass.mass m1 * (planet.radius (hd ps) ^ 3 * 10)) (xz m1) (0, 0)))"
proof -
  from assms obtain p0 rest where "ps = p0 # rest" by (cases ps) auto
  then show ?thesis
    by (simp add: add_sun_force_def newton_term_def xz_def Let_def not_less floor_skip_def)
qed

lemma integrate_eq:
  "custom_mass.mass m \<noteq> 0 \<Longrightarrow> integrate dt F m = Inr (moved dt F m)"
  by (simp add: integrate_def moved_def Let_def)

lemma update_mass_eq:
  assumes "ps \<noteq> []" and "custom_mass.mass (h (cms ! i)) \<noteq> 0"
  shows "update_mass dt ps cms (i, cms ! i) h =
           Inr (h(cms ! i := moved dt (net_force floor_skip ps h cms i) (h (cms ! i))))"
proof -
  have "add_sun_force ps (h (cms ! i)) (pair_forces h cms i (h (cms ! i)))
          = Inr (net_force floor_skip ps h cms i)"
    using assms(1)
    by (simp add: add_sun_force_eq pair_forces_def fold_pair_forces net_force_def Let_def add.assoc)
  then show ?thesis
    using assms(2) by (simp add: update_mass_def integrate_eq Let_def)
qed

lemma moved_mass [simp]: "custom_mass.mass (moved dt F m) = custom_mass.mass m"
  by (simp add: moved_def Let_def)


lemma first_pass_from:
  assumes "distinct cms" and "ps \<noteq> []"
  shows "k \<le> length cms \<Longrightarrow> \<forall>a \<in> set cms. custom_mass.mass (hk a) \<noteq> 0 \<Longrightarrow>
    \<exists>H. foldE (update_mass dt ps cms) (enumerate k (drop k cms)) hk = Inr H
       \<and> (\<forall>b. b \<notin> set (drop k cms) \<longrightarrow> H b = hk b)
       \<and> (\<forall>b. custom_mass.mass (H b) = custom_mass.mass (hk b))
       \<and> (\<forall>i. k \<le> i \<and> i < length cms \<longrightarrow>
             H (cms ! i) = moved dt (net_force floor_skip ps
                                      (mixed (take (i - k) (drop k cms)) H hk) cms i) (hk (cms ! i)))"
proof (induction "length cms - k" arbitrary: k hk)
  case 0
  then have "drop k cms = []" and "length cms = k" by simp_all
  then show ?case by auto
next
  case (Suc n)
  then have k: "k < length cms" by simp
  let ?a = "cms ! k"
  let ?m = "moved dt (net_force floor_skip ps hk cms k) (hk ?a)"
  let ?h1 = "hk(?a := ?m)"
  have dropk: "drop k cms = ?a # drop (Suc k) cms"
    using k by (simp add: Cons_nth_drop_Suc)
  have a_notin: "?a \<notin> set (drop (Suc k) cms)"
    using assms(1) k by (metis distinct.simps(2) distinct_drop dropk)
  have mass_a: "custom_mass.mass (hk ?a) \<noteq> 0"
    using Suc.prems(2) k by simp
  have step: "update_mass dt ps cms (k, ?a) hk = Inr ?h1"
    using assms(2) mass_a by (rule update_mass_eq)
  have masses1: "\<forall>a \<in> set cms. custom_mass.mass (?h1 a) \<noteq> 0"
    using Suc.prems(2) by simp
  have "n = length cms - Suc k" using Suc.hyps(2) by simp
  moreover have "Suc k \<le> length cms" using k by simp
  ultimately obtain H where
    run: "foldE (update_mass dt ps cms) (enumerate (Suc k) (drop (Suc k) cms)) ?h1 = Inr H"
    and frame: "\<forall>b. b \<notin> set (drop (Suc k) cms) \<longrightarrow> H b = ?h1 b"
    and mass: "\<forall>b. custom_mass.mass (H b) = custom_mass.mass (?h1 b)"
    and law: "\<forall>i. Suc k \<le> i \<and> i < length cms \<longrightarrow>
             H (cms ! i) = moved dt (net_force floor_skip ps
                    (mixed (take (i - Suc k) (drop (Suc k) cms)) H ?h1) cms i) (?h1 (cms ! i))"
    using Suc.hyps(1) [of "Suc k" ?h1] masses1 by blast
  have Ha: "H ?a = ?m"
    using frame a_notin by simp
  have "foldE (update_mass dt ps cms) (enumerate k (drop k cms)) hk = Inr H"
    by (simp add: dropk step run)
  moreover have "\<forall>b. b \<notin> set (drop k cms) \<longrightarrow> H b = hk b"
    using frame by (simp add: dropk)
  moreover have "\<forall>b. custom_mass.mass (H b) = custom_mass.mass (hk b)"
    using mass by (simp split: if_splits)
  moreover have "\<forall>i. k \<le> i \<and> i < length cms \<longrightarrow>
             H (cms ! i) = moved dt (net_force floor_skip ps
                                      (mixed (take (i - k) (drop k cms)) H hk) cms i) (hk (cms ! i))"
  proof (intro allI impI)
    fix i
    assume i: "k \<le> i \<and> i < length cms"
    show "H (cms ! i) = moved dt (net_force floor_skip ps
                                      (mixed (take (i - k) (drop k cms)) H hk) cms i) (hk (cms ! i))"
    proof (cases "i = k")
      case True
      have "mixed (take (i - k) (drop k cms)) H hk = hk"
        by (simp add: True mixed_def fun_eq_iff)
      with Ha True show ?thesis by simp
    next
      case False
      with i have i': "Suc k \<le> i \<and> i < length cms" by simp
      have neq: "cms ! i \<noteq> ?a"
        using assms(1) i False k by (simp add: nth_eq_iff_index_eq)
      have "i - k = Suc (i - Suc k)"
        using i' by arith
      then have tk: "take (i - k) (drop k cms) = ?a # take (i - Suc k) (drop (Suc k) cms)"
        by (simp add: dropk)
      have "mixed (take (i - k) (drop k cms)) H hk
              = mixed (take (i - Suc k) (drop (Suc k) cms)) H ?h1"
        using Ha a_notin by (auto simp: mixed_def fun_eq_iff tk dest: in_set_takeD)
      with law i' neq show ?thesis by simp
    qed
  qed
  ultimately show ?case by blast
qed

lemma first_pass:
  assumes "distinct cms" and "ps \<noteq> []" and "list_all (\<lambda>a. custom_mass.mass (h a) \<noteq> 0) cms"
  shows "\<exists>H. foldE (update_mass dt ps cms) (enumerate 0 cms) h = Inr H
       \<and> (\<forall>b. b \<notin> set cms \<longrightarrow> H b = h b)
       \<and> (\<forall>b. custom_mass.mass (H b) = custom_mass.mass (h b))
       \<and> (\<forall>i < length cms.
             H (cms ! i) = moved dt (net_force floor_skip ps (mixed (take i cms) H h) cms i) (h (cms ! i)))"
proof -
  have "\<forall>a \<in> set cms. custom_mass.mass (h a) \<noteq> 0"
    using assms(3) by (simp add: list_all_iff)
  with first_pass_from [OF assms(1,2), of 0 h dt] show ?thesis
    by simp
qed

lemma solver_step:
  assumes "physics_enabled s" and "distinct (custom_masses s)" and "planets s \<noteq> []"
      and "list_all (\<lambda>a. custom_mass.mass (objs s a) \<noteq> 0) (custom_masses s)"
  shows "\<exists>H. apply_gravitational_forces dt s =
              Inr (s\<lparr>objs := H,
                     planets := map_tail (perturb_planet H (custom_masses s)) (planets s)\<rparr>)
       \<and> (\<forall>b. b \<notin> set (custom_masses s) \<longrightarrow> H b = objs s b)
       \<and> (\<forall>b. custom_mass.mass (H b) = custom_mass.mass (objs s b))
       \<and> (\<forall>i < length (custom_masses s).
             H (custom_masses s ! i) =
               moved dt (net_force floor_skip (planets s)
                           (mixed (take i (custom_masses s)) H (objs s)) (custom_masses s) i)
                 (objs s (custom_masses s ! i)))"
proof -
  from first_pass [OF assms(2,3,4), of dt] obtain H where
    H: "foldE (update_mass dt (planets s) (custom_masses s)) (enumerate 0 (custom_masses s)) (objs s) = Inr H"
    and rest: "(\<forall>b. b \<notin> set (custom_masses s) \<longrightarrow> H b = objs s b)
       \<and> (\<forall>b. custom_mass.mass (H b) = custom_mass.mass (objs s b))
       \<and> (\<forall>i < length (custom_masses s).
             H (custom_masses s ! i) =
               moved dt (net_force floor_skip (planets s)
                           (mixed (take i (custom_masses s)) H (objs s)) (custom_masses s) i)
                 (objs s (custom_masses s ! i)))"
    by blast
  from H assms(1) have "apply_gravitational_forces dt s =
              Inr (s\<lparr>objs := H,
                     planets := map_tail (perturb_planet H (custom_masses s)) (planets s)\<rparr>)"
    by (simp add: apply_gravitational_forces_def)
  with rest show ?thesis by blast
qed

lemma moved_velocity:
  "custom_mass.velocity (moved dt F m) =
     ((vx (custom_mass.velocity m) + fst F / custom_mass.mass m * dt) * damping,
      vy (custom_mass.velocity m),
      (vz (custom_mass.velocity m) + snd F / custom_mass.mass m * dt) * damping)"
  by (simp add: moved_def Let_def)

lemma moved_position:
  "custom_mass.position (moved dt F m) =
     (vx (custom_mass.position m)
        + (vx (custom_mass.velocity m) + fst F / custom_mass.mass m * dt) * damping * dt,
      vy (custom_mass.position m),
      vz (custom_mass.position m)
        + (vz (custom_mass.velocity m) + snd F / custom_mass.mass m * dt) * damping * dt)"
  by (simp add: moved_def Let_def)

lemma add_perturbation_eq:
  "add_perturbation px pz m t =
     (fst t + fst (newton_term floor_skip (custom_mass.mass m * 0.001) (px, pz) (xz m)),
      snd t + snd (newton_term floor_skip (custom_mass.mass m * 0.001) (px, pz) (xz m)))"
  by (simp add: add_perturbation_def newton_term_def xz_def Let_def not_less floor_skip_def)

lemma fold_add_perturbation:
  "fold (\<lambda>a t. add_perturbation px pz (h a) t) cms t0 =
     (fst t0 + sum_list (map (\<lambda>a. fst (newton_term floor_skip (custom_mass.mass (h a) * 0.001) (px, pz) (xz (h a)))) cms),
      snd t0 + sum_list (map (\<lambda>a. snd (newton_term floor_skip (custom_mass.mass (h a) * 0.001) (px, pz) (xz (h a)))) cms))"
  by (induction cms arbitrary: t0) (simp_all add: add_perturbation_eq add.assoc)

lemma perturb_planet_eq:
  "perturb_planet h cms p =
     (let t = perturbation floor_skip h cms p
      in if \<bar>fst t\<bar> > 0.001 \<or> \<bar>snd t\<bar> > 0.001
         then p\<lparr>orbit_speed := orbit_speed p * (1 + fst t * 0.01),
                 orbit_radius := orbit_radius p * (1 + snd t * 0.001)\<rparr>
         else p)"
  by (simp add: perturb_planet_def perturbation_def fold_add_perturbation Let_def)

lemma map_tail_nth:
  "length (map_tail f ps) = length ps"
  "k < length ps \<Longrightarrow> map_tail f ps ! k = (if k = 0 then ps ! k else f (ps ! k))"
  by (cases ps; cases k; simp add: map_tail_def)+

lemma sqrt_1_100: "sqrt (1 / 100) = 1 / 10"
  by (rule real_sqrt_unique) (simp_all add: power2_eq_square)


lemma mixed_Nil: "mixed [] H h = h"
  by (simp add: mixed_def fun_eq_iff)





section \<open>The gravity solver, first pass\<close>











text \<open>
  The condition on the masses before \<open>i\<close> is needed. For two masses of mass 5 at rest
  at \<open>(1, 0)\<close> and \<open>(-1, 0)\<close> and \<open>dt = 1\<close>, the forces at the positions before the
  step are mirrored and give the velocities \<open>-12987/1600\<close> and \<open>12987/1600\<close>. The first
  mass gets the first; it is moved to \<open>-11387/1600\<close> before the force on the second is
  computed, and the second does not get the mirrored velocity.
\<close>

lemma ex_mirror_facts:
  "physics_enabled ex_mirror" "distinct (custom_masses ex_mirror)"
  "planets ex_mirror \<noteq> []"
  "list_all (\<lambda>a. custom_mass.mass (objs ex_mirror a) \<noteq> 0) (custom_masses ex_mirror)"
  "custom_masses ex_mirror = [0, Suc 0]"
  "planet.radius (hd (planets ex_mirror)) = 2"
  by (simp_all add: ex_mirror_def spawn_custom_mass_def init_sim_def init_planets_def CustomMass_def Planet_def)

lemma ex_mirror_objs:
  "custom_mass.velocity (objs ex_mirror 0) = (0, 0, 0)"
  "custom_mass.position (objs ex_mirror 0) = (1, 0, 0)"
  "custom_mass.mass (objs ex_mirror 0) = 5"
  "custom_mass.velocity (objs ex_mirror (Suc 0)) = (0, 0, 0)"
  "custom_mass.position (objs ex_mirror (Suc 0)) = (- 1, 0, 0)"
  "custom_mass.mass (objs ex_mirror (Suc 0)) = 5"
  by (simp_all add: ex_mirror_def spawn_custom_mass_def init_sim_def CustomMass_def)

lemma newton_term_on_axis:
  "newton_term skip k (x, 0) (y, 0) =
     (if skip \<bar>y - x\<bar> then (0, 0) else (k / (y - x) ^ 2 * (y - x) / \<bar>y - x\<bar>, 0))"
  by (simp add: newton_term_def Let_def power2_eq_square)

lemma ex_mirror_force:
  "net_force floor_skip (planets ex_mirror) (objs ex_mirror) (custom_masses ex_mirror) 0 = (- 40.625, 0)"
  "net_force floor_skip (planets ex_mirror) (objs ex_mirror) (custom_masses ex_mirror) (Suc 0) = (40.625, 0)"
  by (simp_all add: net_force_def ex_mirror_facts ex_mirror_objs newton_term_on_axis xz_def vx_def vz_def
      floor_skip_def G_def Let_def)

lemma solver_in_place_example:
  "(fst (net_force floor_skip (planets ex_mirror) (objs ex_mirror) (custom_masses ex_mirror) 1) / 5 * 1)
      * damping = 12987 / 1600
   \<and> (\<exists>s'. apply_gravitational_forces 1 ex_mirror = Inr s'
         \<and> custom_mass.velocity (objs s' 0) = (- 12987 / 1600, 0, 0)
         \<and> custom_mass.position (objs s' 0) = (- 11387 / 1600, 0, 0)
         \<and> custom_mass.velocity (objs s' 1) \<noteq> (12987 / 1600, 0, 0))"
proof -
  from solver_step [OF ex_mirror_facts(1-4), of 1] obtain H where
    run: "apply_gravitational_forces 1 ex_mirror =
            Inr (ex_mirror\<lparr>objs := H,
                   planets := map_tail (perturb_planet H (custom_masses ex_mirror)) (planets ex_mirror)\<rparr>)"
    and law: "\<forall>i < length (custom_masses ex_mirror).
             H (custom_masses ex_mirror ! i) =
               moved 1 (net_force floor_skip (planets ex_mirror)
                           (mixed (take i (custom_masses ex_mirror)) H (objs ex_mirror))
                           (custom_masses ex_mirror) i)
                 (objs ex_mirror (custom_masses ex_mirror ! i))"
    by blast
  have len0: "0 < length (custom_masses ex_mirror)" and len1: "Suc 0 < length (custom_masses ex_mirror)"
    by (simp_all add: ex_mirror_facts(5))
  from law [rule_format, OF len0] have H0: "H 0 = moved 1 (- 40.625, 0) (objs ex_mirror 0)"
    by (simp add: ex_mirror_facts(5) mixed_Nil) (simp add: ex_mirror_force(1) [unfolded ex_mirror_facts(5)])
  have v0: "custom_mass.velocity (H 0) = (- 12987 / 1600, 0, 0)"
    by (simp add: H0 moved_velocity ex_mirror_objs vx_def vy_def vz_def damping_def)
  have p0: "custom_mass.position (H 0) = (- 11387 / 1600, 0, 0)"
    by (simp add: H0 moved_position ex_mirror_objs vx_def vy_def vz_def damping_def)
  have m0: "custom_mass.mass (H 0) = 5"
    by (simp add: H0 ex_mirror_objs)
  have f1: "net_force floor_skip (planets ex_mirror) (mixed [0] H (objs ex_mirror)) [0, Suc 0] (Suc 0)
              = (40 - 5 / 2 / (9787 / 1600) ^ 2, 0)"
    by (simp add: net_force_def ex_mirror_facts(6) ex_mirror_objs newton_term_on_axis xz_def
        vx_def vz_def floor_skip_def G_def Let_def mixed_def p0 m0)
  from law [rule_format, OF len1]
  have H1: "H (Suc 0) = moved 1 (40 - 5 / 2 / (9787 / 1600) ^ 2, 0) (objs ex_mirror (Suc 0))"
    by (simp add: ex_mirror_facts(5) f1)
  have v1: "custom_mass.velocity (H (Suc 0)) \<noteq> (12987 / 1600, 0, 0)"
    by (simp add: H1 moved_velocity ex_mirror_objs vx_def vy_def vz_def damping_def power2_eq_square)
  have start: "(fst (net_force floor_skip (planets ex_mirror) (objs ex_mirror) (custom_masses ex_mirror) 1) / 5 * 1)
      * damping = 12987 / 1600"
    by (simp add: ex_mirror_force(2) damping_def)
  from run v0 p0 v1 start show ?thesis
    by simp
qed

lemma perturbation_lawD:
  assumes "perturbation_law skip s s'" and "k < length (planets s)" and "0 < k"
  shows "planets s' ! k =
     (if \<bar>fst (perturbation skip (objs s') (custom_masses s) (planets s ! k))\<bar> > 0.001
         \<or> \<bar>snd (perturbation skip (objs s') (custom_masses s) (planets s ! k))\<bar> > 0.001
      then (planets s ! k)
             \<lparr>orbit_speed := orbit_speed (planets s ! k)
                * (1 + fst (perturbation skip (objs s') (custom_masses s) (planets s ! k)) * 0.01),
              orbit_radius := orbit_radius (planets s ! k)
                * (1 + snd (perturbation skip (objs s') (custom_masses s) (planets s ! k)) * 0.001)\<rparr>
      else planets s ! k)"
  using assms by (simp add: perturbation_law_def Let_def)

lemma mercury:
  "orbit_radius (init_planets ! Suc 0) = 5" "current_angle (init_planets ! Suc 0) = 0"
  "orbit_speed (init_planets ! Suc 0) = 2" "length init_planets = 9"
  by (simp_all add: init_planets_def Planet_def)

section \<open>The gravity solver, second pass\<close>

text \<open>
  Claim C4, amended. In a state with physics enabled, no address twice in the list of
  custom masses, at least one planet and no custom mass of mass zero, the solver step
  returns, and for every planet but the first the perturbation vector is the sum over
  the custom masses (at their positions after the first pass) of \<open>mass / d\<^sup>2 * 0.001\<close>
  along the separation from the planet's XZ position, where a distance \<open>d \<le> 0.1\<close>
  contributes nothing; when a component exceeds 0.001 in magnitude the orbit speed is
  multiplied by \<open>1 + perturbation_x * 0.01\<close> and the orbit radius by
  \<open>1 + perturbation_z * 0.001\<close>, with no clamp, and otherwise the planet is unchanged.
  No other field of a planet changes, and the first planet does not change at all.
\<close>

theorem perturbation_step_law:
  assumes "physics_enabled s" and "distinct (custom_masses s)" and "planets s \<noteq> []"
      and "list_all (\<lambda>a. custom_mass.mass (objs s a) \<noteq> 0) (custom_masses s)"
  shows "\<exists>s'. apply_gravitational_forces dt s = Inr s' \<and> perturbation_law floor_skip s s'"
proof -
  from solver_step [OF assms, of dt] obtain H where
    run: "apply_gravitational_forces dt s =
              Inr (s\<lparr>objs := H,
                     planets := map_tail (perturb_planet H (custom_masses s)) (planets s)\<rparr>)"
    by blast
  let ?s' = "s\<lparr>objs := H, planets := map_tail (perturb_planet H (custom_masses s)) (planets s)\<rparr>"
  have "perturbation_law floor_skip s ?s'"
    unfolding perturbation_law_def
    by (simp add: map_tail_nth perturb_planet_eq Let_def)
  with run show ?thesis by auto
qed

lemma ex_heavy_centre_facts:
  "physics_enabled ex_heavy_centre" "distinct (custom_masses ex_heavy_centre)"
  "planets ex_heavy_centre \<noteq> []"
  "list_all (\<lambda>a. custom_mass.mass (objs ex_heavy_centre a) \<noteq> 0) (custom_masses ex_heavy_centre)"
  "custom_masses ex_heavy_centre = [0]"
  "planets ex_heavy_centre = init_planets"
  "custom_mass.position (objs ex_heavy_centre 0) = (0, 0, 0)"
  "custom_mass.velocity (objs ex_heavy_centre 0) = (0, 0, 0)"
  "custom_mass.mass (objs ex_heavy_centre 0) = 50"
  by (simp_all add: ex_heavy_centre_def spawn_custom_mass_def init_sim_def init_planets_def CustomMass_def)

lemma ex_heavy_centre_force:
  "net_force floor_skip (planets ex_heavy_centre) (objs ex_heavy_centre) (custom_masses ex_heavy_centre) 0 = (0, 0)"
  by (simp add: net_force_def ex_heavy_centre_facts newton_term_def xz_def vx_def vz_def
      floor_skip_def Let_def)

lemma earth:
  "orbit_radius (init_planets ! 3) = 10" "current_angle (init_planets ! 3) = 0"
  by (simp_all add: init_planets_def Planet_def)

theorem perturbation_step_law_witness:
  "physics_enabled ex_heavy_centre \<and> distinct (custom_masses ex_heavy_centre)
   \<and> planets ex_heavy_centre \<noteq> []
   \<and> list_all (\<lambda>a. custom_mass.mass (objs ex_heavy_centre a) \<noteq> 0) (custom_masses ex_heavy_centre)
   \<and> (\<exists>s'. apply_gravitational_forces 1 ex_heavy_centre = Inr s'
         \<and> planets s' ! 0 = planets ex_heavy_centre ! 0
         \<and> planets s' ! 1 = (planets ex_heavy_centre ! 1)\<lparr>orbit_speed := 1.99996, orbit_radius := 5\<rparr>
         \<and> planets s' ! 3 = planets ex_heavy_centre ! 3)"
proof -
  from perturbation_step_law [OF ex_heavy_centre_facts(1-4), of 1] obtain s' where
    run: "apply_gravitational_forces 1 ex_heavy_centre = Inr s'"
    and law: "perturbation_law floor_skip ex_heavy_centre s'"
    by blast
  from solver_step [OF ex_heavy_centre_facts(1-4), of 1] run obtain H where
    s': "s' = ex_heavy_centre\<lparr>objs := H,
                   planets := map_tail (perturb_planet H (custom_masses ex_heavy_centre))
                                (planets ex_heavy_centre)\<rparr>"
    and first: "\<forall>i < length (custom_masses ex_heavy_centre).
             H (custom_masses ex_heavy_centre ! i) =
               moved 1 (net_force floor_skip (planets ex_heavy_centre)
                           (mixed (take i (custom_masses ex_heavy_centre)) H (objs ex_heavy_centre))
                           (custom_masses ex_heavy_centre) i)
                 (objs ex_heavy_centre (custom_masses ex_heavy_centre ! i))"
    by auto
  have len: "0 < length (custom_masses ex_heavy_centre)"
    by (simp add: ex_heavy_centre_facts(5))
  have cm0: "custom_masses ex_heavy_centre ! 0 = 0"
    by (simp add: ex_heavy_centre_facts(5))
  from first [rule_format, OF len] have "H 0 = moved 1 (0, 0) (objs ex_heavy_centre 0)"
    by (simp add: cm0 mixed_Nil ex_heavy_centre_force)
  then have pos: "custom_mass.position (objs s' 0) = (0, 0, 0)"
    and m: "custom_mass.mass (objs s' 0) = 50"
    by (simp_all add: s' moved_position ex_heavy_centre_facts(7,8,9) vx_def vy_def vz_def)
  have p1: "perturbation floor_skip (objs s') [0] (init_planets ! Suc 0) = (- 0.002, 0)"
    by (simp add: perturbation_def mercury newton_term_def xz_def pos m vx_def vz_def
        floor_skip_def sqrt_25 Let_def power2_eq_square)
  have p3: "perturbation floor_skip (objs s') [0] (init_planets ! 3) = (- 0.0005, 0)"
    by (simp add: perturbation_def earth newton_term_def xz_def pos m vx_def vz_def
        floor_skip_def Let_def power2_eq_square)
  from law have l0: "planets s' ! 0 = planets ex_heavy_centre ! 0"
    by (simp add: perturbation_law_def ex_heavy_centre_facts(6) mercury)
  from perturbation_lawD [OF law, of 1]
  have l1: "planets s' ! 1 = (planets ex_heavy_centre ! 1)\<lparr>orbit_speed := 1.99996, orbit_radius := 5\<rparr>"
    by (simp add: ex_heavy_centre_facts(5,6) mercury p1)
  from perturbation_lawD [OF law, of 3]
  have l3: "planets s' ! 3 = planets ex_heavy_centre ! 3"
    by (simp add: ex_heavy_centre_facts(5,6) mercury p3)
  from run l0 l1 l3 ex_heavy_centre_facts(1-4) show ?thesis
    by blast
qed

text \<open>
  Claim C4, as stated, skips only distances below 0.1. It fails for a mass of mass 5 at
  \<open>(5, 0.1)\<close>, exactly 0.1 from Mercury. With a mass of mass 20 at \<open>(7.5, 0.15)\<close> the
  net force on the first mass is zero, so a step with \<open>dt = 1\<close> leaves it where it is.
  The claim adds its term \<open>5 / 0.1\<^sup>2 * 0.001 = 0.5\<close> to the z-component of Mercury's
  perturbation; the code tests \<open>distance > 0.1\<close> and adds nothing for it, and Mercury's
  orbit radius after the step is not the one the claim gives.
\<close>

lemma ex_beside_mercury_facts:
  "physics_enabled ex_beside_mercury" "distinct (custom_masses ex_beside_mercury)"
  "planets ex_beside_mercury \<noteq> []"
  "list_all (\<lambda>a. custom_mass.mass (objs ex_beside_mercury a) \<noteq> 0) (custom_masses ex_beside_mercury)"
  "custom_masses ex_beside_mercury = [0, Suc 0]"
  "planets ex_beside_mercury = init_planets"
  "planet.radius (hd init_planets) = 2"
  by (simp_all add: ex_beside_mercury_def spawn_custom_mass_def init_sim_def init_planets_def
      CustomMass_def Planet_def)

lemma ex_beside_mercury_objs:
  "custom_mass.velocity (objs ex_beside_mercury 0) = (0, 0, 0)"
  "custom_mass.position (objs ex_beside_mercury 0) = (5, 0, 0.1)"
  "custom_mass.mass (objs ex_beside_mercury 0) = 5"
  "custom_mass.velocity (objs ex_beside_mercury (Suc 0)) = (0, 0, 0)"
  "custom_mass.position (objs ex_beside_mercury (Suc 0)) = (7.5, 0, 0.15)"
  "custom_mass.mass (objs ex_beside_mercury (Suc 0)) = 20"
  by (simp_all add: ex_beside_mercury_def spawn_custom_mass_def init_sim_def CustomMass_def)

lemma sqrt_2501_400: "sqrt (2501 / 400) = sqrt 2501 / 20"
proof -
  have "sqrt (2501 / 400) = sqrt 2501 / sqrt 400"
    by (rule real_sqrt_divide)
  moreover have "sqrt 400 = 20"
    by (rule real_sqrt_unique) simp_all
  ultimately show ?thesis by simp
qed

lemma sqrt_2501_100: "sqrt (2501 / 100) = sqrt 2501 / 10"
proof -
  have "sqrt (2501 / 100) = sqrt 2501 / sqrt 100"
    by (rule real_sqrt_divide)
  moreover have "sqrt 100 = 10"
    by (rule real_sqrt_unique) simp_all
  ultimately show ?thesis by simp
qed

lemma sqrt_2501_gt: "2 < sqrt 2501"
  by (rule real_less_rsqrt) simp

lemma ex_beside_mercury_force:
  "net_force floor_skip (planets ex_beside_mercury) (objs ex_beside_mercury)
     (custom_masses ex_beside_mercury) 0 = (0, 0)"
  using sqrt_2501_gt
  apply (simp add: net_force_def ex_beside_mercury_facts ex_beside_mercury_objs newton_term_def xz_def
      vx_def vz_def floor_skip_def G_def Let_def sqrt_2501_400 sqrt_2501_100 power2_eq_square)
  done


lemma abs_le_sqrt_sum: "\<bar>x\<bar> \<le> sqrt (x * x + y * y)"
proof -
  have "\<bar>x\<bar> = sqrt (x * x)" by simp
  also have "\<dots> \<le> sqrt (x * x + y * y)" by (rule real_sqrt_le_mono) simp
  finally show ?thesis .
qed

lemma newton_term_fst_bound:
  "\<bar>fst (newton_term skip k p q)\<bar>
     \<le> \<bar>k\<bar> / ((fst q - fst p) * (fst q - fst p) + (snd q - snd p) * (snd q - snd p))"
proof -
  let ?dx = "fst q - fst p"
  let ?dz = "snd q - snd p"
  let ?d = "sqrt (?dx * ?dx + ?dz * ?dz)"
  have sq: "?d ^ 2 = ?dx * ?dx + ?dz * ?dz"
    by simp
  have nonneg: "0 \<le> \<bar>k\<bar> / (?dx * ?dx + ?dz * ?dz)"
    by simp
  show ?thesis
  proof (cases "skip ?d \<or> ?d = 0")
    case True
    with nonneg show ?thesis
      by (auto simp: newton_term_def Let_def)
  next
    case False
    then have pos: "0 < ?d"
      by (simp add: less_le)
    have "\<bar>fst (newton_term skip k p q)\<bar> = \<bar>k\<bar> / ?d ^ 2 * (\<bar>?dx\<bar> / ?d)"
      using False pos by (simp add: newton_term_def Let_def abs_mult)
    also have "\<dots> \<le> \<bar>k\<bar> / ?d ^ 2 * 1"
    proof (rule mult_left_mono)
      show "\<bar>?dx\<bar> / ?d \<le> 1"
        using pos abs_le_sqrt_sum [of ?dx ?dz] by simp
      show "0 \<le> \<bar>k\<bar> / ?d ^ 2"
        by simp
    qed
    finally show ?thesis
      by (simp only: sq mult_1_right)
  qed
qed


lemma newton_term_same_skip:
  assumes "0.1 < sqrt ((fst q - fst p) * (fst q - fst p) + (snd q - snd p) * (snd q - snd p))"
  shows "newton_term claimed_skip k p q = newton_term floor_skip k p q"
  using assms by (simp add: newton_term_def Let_def claimed_skip_def floor_skip_def)

lemma perturbed_planets_differ:
  assumes "orbit_radius p \<noteq> 0"
  shows "(if \<bar>a\<bar> > 0.001 \<or> \<bar>b + 1 / 2\<bar> > 0.001
          then p\<lparr>orbit_speed := orbit_speed p * (1 + a * 0.01),
                  orbit_radius := orbit_radius p * (1 + (b + 1 / 2) * 0.001)\<rparr>
          else p)
       \<noteq> (if \<bar>a\<bar> > 0.001 \<or> \<bar>b\<bar> > (0.001 :: real)
          then p\<lparr>orbit_speed := orbit_speed p * (1 + a * 0.01),
                  orbit_radius := orbit_radius p * (1 + b * 0.001)\<rparr>
          else p)"
proof
  assume eq: "(if \<bar>a\<bar> > 0.001 \<or> \<bar>b + 1 / 2\<bar> > 0.001
          then p\<lparr>orbit_speed := orbit_speed p * (1 + a * 0.01),
                  orbit_radius := orbit_radius p * (1 + (b + 1 / 2) * 0.001)\<rparr>
          else p)
       = (if \<bar>a\<bar> > 0.001 \<or> \<bar>b\<bar> > (0.001 :: real)
          then p\<lparr>orbit_speed := orbit_speed p * (1 + a * 0.01),
                  orbit_radius := orbit_radius p * (1 + b * 0.001)\<rparr>
          else p)"
  have big: "\<bar>a\<bar> > 0.001 \<or> \<bar>b + 1 / 2\<bar> > 0.001 \<or> \<bar>b\<bar> > 0.001"
    by (cases "\<bar>b\<bar> > 0.001") auto
  from arg_cong [OF eq, of orbit_radius] assms show False
    by (auto split: if_splits)
qed

theorem perturbation_step_counterexample:
  "(\<exists>s'. apply_gravitational_forces 1 ex_beside_mercury = Inr s'
         \<and> custom_mass.position (objs s' 0) = (5, 0, 0.1))
   \<and> \<not> (\<exists>s'. apply_gravitational_forces 1 ex_beside_mercury = Inr s'
            \<and> perturbation_law claimed_skip ex_beside_mercury s')"
proof -
  from solver_step [OF ex_beside_mercury_facts(1-4), of 1] obtain H where
    run: "apply_gravitational_forces 1 ex_beside_mercury =
            Inr (ex_beside_mercury\<lparr>objs := H,
                   planets := map_tail (perturb_planet H (custom_masses ex_beside_mercury))
                                (planets ex_beside_mercury)\<rparr>)"
    and law: "\<forall>i < length (custom_masses ex_beside_mercury).
             H (custom_masses ex_beside_mercury ! i) =
               moved 1 (net_force floor_skip (planets ex_beside_mercury)
                           (mixed (take i (custom_masses ex_beside_mercury)) H (objs ex_beside_mercury))
                           (custom_masses ex_beside_mercury) i)
                 (objs ex_beside_mercury (custom_masses ex_beside_mercury ! i))"
    by blast
  let ?s' = "ex_beside_mercury\<lparr>objs := H,
                   planets := map_tail (perturb_planet H (custom_masses ex_beside_mercury))
                                (planets ex_beside_mercury)\<rparr>"
  let ?F = "net_force floor_skip init_planets (mixed [0] H (objs ex_beside_mercury)) [0, Suc 0] (Suc 0)"
  have len0: "0 < length (custom_masses ex_beside_mercury)"
    and len1: "Suc 0 < length (custom_masses ex_beside_mercury)"
    by (simp_all add: ex_beside_mercury_facts(5))
  from law [rule_format, OF len0] have H0: "H 0 = moved 1 (0, 0) (objs ex_beside_mercury 0)"
    by (simp add: ex_beside_mercury_facts(5) mixed_Nil)
       (simp add: ex_beside_mercury_force [unfolded ex_beside_mercury_facts(5)])
  have p0: "custom_mass.position (H 0) = (5, 0, 0.1)" and m0: "custom_mass.mass (H 0) = 5"
    by (simp_all add: H0 moved_position ex_beside_mercury_objs vx_def vy_def vz_def)
  from law [rule_format, OF len1] have H1: "H (Suc 0) = moved 1 ?F (objs ex_beside_mercury (Suc 0))"
    by (simp add: ex_beside_mercury_facts(5,6))
  have m1: "custom_mass.mass (H (Suc 0)) = 20"
    by (simp add: H1 ex_beside_mercury_objs)
  have "\<bar>fst (newton_term floor_skip 10 (15 / 2, 3 / 20) (5, 1 / 10))\<bar> \<le> 10 / (2501 / 400)"
    using newton_term_fst_bound [of floor_skip 10 "(15 / 2, 3 / 20)" "(5, 1 / 10)"] by simp
  moreover have "\<bar>fst (newton_term floor_skip 160 (15 / 2, 3 / 20) (0, 0))\<bar> \<le> 160 / (22509 / 400)"
    using newton_term_fst_bound [of floor_skip 160 "(15 / 2, 3 / 20)" "(0, 0)"] by simp
  moreover have "fst ?F = fst (newton_term floor_skip 10 (15 / 2, 3 / 20) (5, 1 / 10))
                  + fst (newton_term floor_skip 160 (15 / 2, 3 / 20) (0, 0))"
    by (simp add: net_force_def Let_def mixed_def ex_beside_mercury_objs ex_beside_mercury_facts(7)
        xz_def vx_def vz_def p0 m0 G_def)
  ultimately have F: "- 5 \<le> fst ?F"
    by simp
  have x1: "7 \<le> vx (custom_mass.position (H (Suc 0)))"
    using F by (simp add: H1 moved_position ex_beside_mercury_objs vx_def vy_def vz_def damping_def)
  have "2 \<le> \<bar>vx (custom_mass.position (H (Suc 0))) - 5\<bar>"
    using x1 by simp
  also have "\<dots> \<le> sqrt ((vx (custom_mass.position (H (Suc 0))) - 5) * (vx (custom_mass.position (H (Suc 0))) - 5)
                + (vz (custom_mass.position (H (Suc 0))) - 0) * (vz (custom_mass.position (H (Suc 0))) - 0))"
    by (rule abs_le_sqrt_sum)
  finally have far: "0.1 < sqrt ((vx (custom_mass.position (H (Suc 0))) - 5) * (vx (custom_mass.position (H (Suc 0))) - 5)
                + (vz (custom_mass.position (H (Suc 0))) - 0) * (vz (custom_mass.position (H (Suc 0))) - 0))"
    by linarith
  have far': "0.1 < sqrt ((fst (xz (H (Suc 0))) - fst (5 :: real, 0 :: real)) * (fst (xz (H (Suc 0))) - fst (5 :: real, 0 :: real))
                + (snd (xz (H (Suc 0))) - snd (5 :: real, 0 :: real)) * (snd (xz (H (Suc 0))) - snd (5 :: real, 0 :: real)))"
    using far by (simp add: xz_def)
  define a where "a = fst (newton_term floor_skip (1 / 50) (5, 0) (xz (H (Suc 0))))"
  define b where "b = snd (newton_term floor_skip (1 / 50) (5, 0) (xz (H (Suc 0))))"
  have same: "newton_term claimed_skip (1 / 50) (5, 0) (xz (H (Suc 0)))
      = newton_term floor_skip (1 / 50) (5, 0) (xz (H (Suc 0)))"
    using far' by (rule newton_term_same_skip)
  have xz0: "xz (H 0) = (5, 1 / 10)"
    by (simp add: xz_def p0 vx_def vz_def)
  have t0_code: "newton_term floor_skip (1 / 200) (5, 0) (5, 1 / 10) = (0, 0)"
    by (simp add: newton_term_def floor_skip_def sqrt_1_100 Let_def)
  have t0_claimed: "newton_term claimed_skip (1 / 200) (5, 0) (5, 1 / 10) = (0, 1 / 2)"
    by (simp add: newton_term_def claimed_skip_def sqrt_1_100 Let_def power2_eq_square)
  have code: "perturbation floor_skip H [0, Suc 0] (init_planets ! Suc 0) = (a, b)"
    by (simp add: perturbation_def mercury xz0 m0 m1 t0_code Let_def a_def b_def)
  have claimed: "perturbation claimed_skip H [0, Suc 0] (init_planets ! Suc 0) = (a, b + 1 / 2)"
    by (simp add: perturbation_def mercury xz0 m0 m1 t0_claimed same Let_def a_def b_def)
  have run_planet: "planets ?s' ! 1 =
      (if \<bar>a\<bar> > 0.001 \<or> \<bar>b\<bar> > 0.001
       then (init_planets ! Suc 0)\<lparr>orbit_speed := orbit_speed (init_planets ! Suc 0) * (1 + a * 0.01),
               orbit_radius := orbit_radius (init_planets ! Suc 0) * (1 + b * 0.001)\<rparr>
       else init_planets ! Suc 0)"
    by (simp add: ex_beside_mercury_facts(5,6) map_tail_nth mercury perturb_planet_eq code)
  have "\<not> perturbation_law claimed_skip ex_beside_mercury ?s'"
  proof
    assume "perturbation_law claimed_skip ex_beside_mercury ?s'"
    from perturbation_lawD [OF this, of 1]
    have "planets ?s' ! 1 =
      (if \<bar>a\<bar> > 0.001 \<or> \<bar>b + 1 / 2\<bar> > 0.001
       then (init_planets ! Suc 0)\<lparr>orbit_speed := orbit_speed (init_planets ! Suc 0) * (1 + a * 0.01),
               orbit_radius := orbit_radius (init_planets ! Suc 0) * (1 + (b + 1 / 2) * 0.001)\<rparr>
       else init_planets ! Suc 0)"
      by (simp add: ex_beside_mercury_facts(5,6) mercury claimed)
    with run_planet perturbed_planets_differ [of "init_planets ! Suc 0" a b] show False
      by (simp add: mercury)
  qed
  with run p0 show ?thesis by auto
qed

section \<open>The trail\<close>

lemma push_trail_length:
  "length (push_trail tr p) = (if length tr > 100 then length tr else Suc (length tr))"
  by (cases tr) (simp_all add: push_trail_def)

lemma push_trail_fifo:
  "length tr \<le> 101 \<Longrightarrow> push_trail tr p = drop (length tr - 100) tr @ [p]"
  by (cases tr) (auto simp: push_trail_def drop_Cons' le_Suc_eq)

lemma moved_trail:
  "trail (moved dt F m) = push_trail (trail m)
      (vx (custom_mass.position (moved dt F m)), vz (custom_mass.position (moved dt F m)))"
  by (simp add: moved_def Let_def vx_def vz_def)

lemma map_tail_Nil: "map_tail f ps = [] \<longleftrightarrow> ps = []"
  by (cases ps) (simp_all add: map_tail_def)

lemma solver_step_trail:
  assumes "physics_enabled s" and "distinct (custom_masses s)" and "planets s \<noteq> []"
      and "list_all (\<lambda>a. custom_mass.mass (objs s a) \<noteq> 0) (custom_masses s)"
      and "a \<in> set (custom_masses s)"
  shows "\<exists>s'. apply_gravitational_forces dt s = Inr s'
          \<and> physics_enabled s' \<and> custom_masses s' = custom_masses s \<and> planets s' \<noteq> []
          \<and> list_all (\<lambda>a. custom_mass.mass (objs s' a) \<noteq> 0) (custom_masses s')
          \<and> trail (objs s' a) = push_trail (trail (objs s a))
               (vx (custom_mass.position (objs s' a)), vz (custom_mass.position (objs s' a)))"
proof -
  from solver_step [OF assms(1-4), of dt] obtain H where
    run: "apply_gravitational_forces dt s =
              Inr (s\<lparr>objs := H,
                     planets := map_tail (perturb_planet H (custom_masses s)) (planets s)\<rparr>)"
    and mass: "\<forall>b. custom_mass.mass (H b) = custom_mass.mass (objs s b)"
    and law: "\<forall>i < length (custom_masses s).
             H (custom_masses s ! i) =
               moved dt (net_force floor_skip (planets s)
                           (mixed (take i (custom_masses s)) H (objs s)) (custom_masses s) i)
                 (objs s (custom_masses s ! i))"
    by blast
  from assms(5) obtain i where i: "i < length (custom_masses s)" "custom_masses s ! i = a"
    by (auto simp: in_set_conv_nth)
  from law i have "trail (H a) = push_trail (trail (objs s a))
               (vx (custom_mass.position (H a)), vz (custom_mass.position (H a)))"
    by (metis moved_trail)
  moreover have "list_all (\<lambda>a. custom_mass.mass (H a) \<noteq> 0) (custom_masses s)"
    using assms(4) mass by simp
  ultimately show ?thesis
    using run assms(1,3) by (simp add: map_tail_Nil)
qed

lemma solver_steps_trail_length:
  assumes "physics_enabled s" and "distinct (custom_masses s)" and "planets s \<noteq> []"
      and "list_all (\<lambda>a. custom_mass.mass (objs s a) \<noteq> 0) (custom_masses s)"
      and "a \<in> set (custom_masses s)"
      and "length (trail (objs s a)) \<le> 101"
  shows "\<exists>s'. solver_steps n dt s = Inr s'
          \<and> length (trail (objs s' a)) = min (length (trail (objs s a)) + n) 101"
  using assms
proof (induction n arbitrary: s)
  case 0
  then show ?case by simp
next
  case (Suc n)
  from solver_step_trail [OF Suc.prems(1-5), of dt] obtain s1 where
    run: "apply_gravitational_forces dt s = Inr s1"
    and inv: "physics_enabled s1" "custom_masses s1 = custom_masses s" "planets s1 \<noteq> []"
      "list_all (\<lambda>a. custom_mass.mass (objs s1 a) \<noteq> 0) (custom_masses s1)"
    and tr: "trail (objs s1 a) = push_trail (trail (objs s a))
               (vx (custom_mass.position (objs s1 a)), vz (custom_mass.position (objs s1 a)))"
    by blast
  have len1: "length (trail (objs s1 a)) = min (Suc (length (trail (objs s a)))) 101"
    using Suc.prems(6) by (simp add: tr push_trail_length)
  have "distinct (custom_masses s1)" "a \<in> set (custom_masses s1)"
    "length (trail (objs s1 a)) \<le> 101"
    using Suc.prems(2,5) inv(2) len1 by simp_all
  from Suc.IH [OF inv(1) this(1) inv(3,4) this(2,3)] obtain s' where
    "solver_steps n dt s1 = Inr s'"
    "length (trail (objs s' a)) = min (length (trail (objs s1 a)) + n) 101"
    by blast
  with run len1 show ?case by simp
qed

text \<open>
  Claim C2 at a concrete run. A mass spawned at \<open>(3, 4)\<close> starts with an empty trail.
  After 100 solver steps its trail holds 100 entries, after 101 steps it holds 101
  entries, and it holds 101 entries from then on: the oldest entry is removed only when
  the length is already above 100, before the new one is appended.
\<close>

theorem trail_holds_101_entries:
  "trail (objs ex_one_mass 0) = []
   \<and> (\<exists>s'. solver_steps 100 0.016 ex_one_mass = Inr s' \<and> length (trail (objs s' 0)) = 100)
   \<and> (\<exists>s'. solver_steps 101 0.016 ex_one_mass = Inr s' \<and> length (trail (objs s' 0)) = 101)
   \<and> (\<exists>s'. solver_steps 500 0.016 ex_one_mass = Inr s' \<and> length (trail (objs s' 0)) = 101)"
proof -
  have facts: "physics_enabled ex_one_mass" "distinct (custom_masses ex_one_mass)"
    "planets ex_one_mass \<noteq> []"
    "list_all (\<lambda>a. custom_mass.mass (objs ex_one_mass a) \<noteq> 0) (custom_masses ex_one_mass)"
    "0 \<in> set (custom_masses ex_one_mass)"
    by (simp_all add: ex_one_mass_def spawn_custom_mass_def init_sim_def init_planets_def CustomMass_def)
  have empty: "trail (objs ex_one_mass 0) = []"
    by (simp add: ex_one_mass_def spawn_custom_mass_def init_sim_def CustomMass_def)
  then have short: "length (trail (objs ex_one_mass 0)) \<le> 101"
    by simp
  from solver_steps_trail_length [OF facts short, of 100 "0.016"]
    solver_steps_trail_length [OF facts short, of 101 "0.016"]
    solver_steps_trail_length [OF facts short, of 500 "0.016"] empty
  show ?thesis by simp
qed

section \<open>The curvature field\<close>

lemma foldE_snoc:
  "foldE f (xs @ [x]) s = (case foldE f xs s of Inl e \<Rightarrow> Inl e | Inr s' \<Rightarrow> f x s')"
  by (induction xs arbitrary: s) (simp_all split: sum.splits)

lemma row_loop:
  assumes "i < length g" and "n \<le> length (g ! i)"
  shows "\<exists>g'. foldE (\<lambda>j. add_cell i j (c j)) [0..<n] g = Inr g'
          \<and> length g' = length g
          \<and> (\<forall>r < length g. length (g' ! r) = length (g ! r))
          \<and> (\<forall>r < length g. \<forall>j < length (g ! r).
                g' ! r ! j = g ! r ! j + (if r = i \<and> j < n then c j else 0))"
  using assms(2)
proof (induction n)
  case 0
  then show ?case by simp
next
  case (Suc n)
  then obtain g1 where
    run: "foldE (\<lambda>j. add_cell i j (c j)) [0..<n] g = Inr g1"
    and len: "length g1 = length g"
    and rows: "\<forall>r < length g. length (g1 ! r) = length (g ! r)"
    and vals: "\<forall>r < length g. \<forall>j < length (g ! r).
                g1 ! r ! j = g ! r ! j + (if r = i \<and> j < n then c j else 0)"
    by auto
  let ?g2 = "g1[i := (g1 ! i)[n := g1 ! i ! n + c n]]"
  have ok: "i < length g1" "n < length (g1 ! i)"
    using assms(1) Suc.prems len rows by simp_all
  then have cell: "add_cell i n (c n) g1 = Inr ?g2"
    by (simp add: add_cell_def)
  have "foldE (\<lambda>j. add_cell i j (c j)) [0..<Suc n] g = Inr ?g2"
    by (simp add: foldE_snoc run cell)
  moreover have "length ?g2 = length g"
    by (simp add: len)
  moreover have "\<forall>r < length g. length (?g2 ! r) = length (g ! r)"
    using len rows ok by (auto simp: nth_list_update)
  moreover have "\<forall>r < length g. \<forall>j < length (g ! r).
                ?g2 ! r ! j = g ! r ! j + (if r = i \<and> j < Suc n then c j else 0)"
    using len rows vals ok by (auto simp: nth_list_update less_Suc_eq)
  ultimately show ?case by blast
qed

lemma grid_loop:
  assumes "n \<le> length g" and "\<forall>r < length g. m \<le> length (g ! r)"
  shows "\<exists>g'. foldE (\<lambda>i. foldE (\<lambda>j. add_cell i j (c i j)) [0..<m]) [0..<n] g = Inr g'
          \<and> length g' = length g
          \<and> (\<forall>r < length g. length (g' ! r) = length (g ! r))
          \<and> (\<forall>r < length g. \<forall>j < length (g ! r).
                g' ! r ! j = g ! r ! j + (if r < n \<and> j < m then c r j else 0))"
  using assms(1)
proof (induction n)
  case 0
  then show ?case by simp
next
  case (Suc n)
  then obtain g1 where
    run: "foldE (\<lambda>i. foldE (\<lambda>j. add_cell i j (c i j)) [0..<m]) [0..<n] g = Inr g1"
    and len: "length g1 = length g"
    and rows: "\<forall>r < length g. length (g1 ! r) = length (g ! r)"
    and vals: "\<forall>r < length g. \<forall>j < length (g ! r).
                g1 ! r ! j = g ! r ! j + (if r < n \<and> j < m then c r j else 0)"
    by auto
  have ok: "n < length g1" "m \<le> length (g1 ! n)"
    using Suc.prems len rows assms(2) by simp_all
  from row_loop [OF ok, of "c n"] obtain g2 where
    run2: "foldE (\<lambda>j. add_cell n j (c n j)) [0..<m] g1 = Inr g2"
    and len2: "length g2 = length g1"
    and rows2: "\<forall>r < length g1. length (g2 ! r) = length (g1 ! r)"
    and vals2: "\<forall>r < length g1. \<forall>j < length (g1 ! r).
                g2 ! r ! j = g1 ! r ! j + (if r = n \<and> j < m then c n j else 0)"
    by blast
  have "foldE (\<lambda>i. foldE (\<lambda>j. add_cell i j (c i j)) [0..<m]) [0..<Suc n] g = Inr g2"
    by (simp add: foldE_snoc run run2)
  moreover have "length g2 = length g"
    by (simp add: len len2)
  moreover have "\<forall>r < length g. length (g2 ! r) = length (g ! r)"
    using len rows rows2 by simp
  moreover have "\<forall>r < length g. \<forall>j < length (g ! r).
                g2 ! r ! j = g ! r ! j + (if r < Suc n \<and> j < m then c r j else 0)"
    using len rows vals vals2 by (auto simp: less_Suc_eq)
  ultimately show ?case by blast
qed

lemma grid_shape_nth: "grid_shape g \<Longrightarrow> r < grid_size \<Longrightarrow> length (g ! r) = grid_size"
  by (simp add: grid_shape_def list_all_length)

lemma grid_shapeI:
  "length g = grid_size \<Longrightarrow> \<forall>r < grid_size. length (g ! r) = grid_size \<Longrightarrow> grid_shape g"
  by (simp add: grid_shape_def list_all_length)

lemma add_mass_to_grid_eq:
  assumes "grid_shape g"
  shows "\<exists>g'. add_mass_to_grid x z m g = Inr g' \<and> grid_shape g'
          \<and> (\<forall>i < grid_size. \<forall>j < grid_size. g' ! i ! j = g ! i ! j + curvature x z m i j)"
proof -
  have len: "length g = grid_size" using assms by (simp add: grid_shape_def)
  have rows: "\<forall>r < length g. grid_size \<le> length (g ! r)"
    using assms len by (simp add: grid_shape_nth)
  from grid_loop [OF _ rows, of grid_size "curvature x z m"] len obtain g' where
    "add_mass_to_grid x z m g = Inr g'" "length g' = length g"
    "\<forall>r < length g. length (g' ! r) = length (g ! r)"
    "\<forall>r < length g. \<forall>j < length (g ! r).
        g' ! r ! j = g ! r ! j + (if r < grid_size \<and> j < grid_size then curvature x z m r j else 0)"
    by (auto simp: add_mass_to_grid_def)
  with len assms show ?thesis
    by (auto simp: grid_shape_nth intro!: grid_shapeI)
qed

lemma bodies_loop:
  assumes "grid_shape g"
  shows "\<exists>g'. foldE (\<lambda>b. add_mass_to_grid (X b) (Z b) (M b)) bs g = Inr g' \<and> grid_shape g'
          \<and> (\<forall>i < grid_size. \<forall>j < grid_size.
                g' ! i ! j = g ! i ! j + sum_list (map (\<lambda>b. curvature (X b) (Z b) (M b) i j) bs))"
  using assms
proof (induction bs arbitrary: g)
  case Nil
  then show ?case by simp
next
  case (Cons b bs)
  from add_mass_to_grid_eq [OF Cons.prems, of "X b" "Z b" "M b"] obtain g1 where
    g1: "add_mass_to_grid (X b) (Z b) (M b) g = Inr g1" "grid_shape g1"
      "\<forall>i < grid_size. \<forall>j < grid_size. g1 ! i ! j = g ! i ! j + curvature (X b) (Z b) (M b) i j"
    by blast
  from Cons.IH [OF g1(2)] obtain g' where
    g': "foldE (\<lambda>b. add_mass_to_grid (X b) (Z b) (M b)) bs g1 = Inr g'" "grid_shape g'"
      "\<forall>i < grid_size. \<forall>j < grid_size.
          g' ! i ! j = g1 ! i ! j + sum_list (map (\<lambda>b. curvature (X b) (Z b) (M b) i j) bs)"
    by blast
  from g1 g' show ?case by (simp add: add.assoc)
qed

lemma update_spacetime_grid_eq:
  assumes "grid_shape (grid_heights s)"
  shows "\<exists>g. update_spacetime_grid s = Inr (s\<lparr>grid_heights := g\<rparr>) \<and> grid_shape g
          \<and> (\<forall>i < grid_size. \<forall>j < grid_size.
                g ! i ! j =
                  sum_list (map (\<lambda>p. curvature (fst (planet_xz p)) (snd (planet_xz p))
                                         (planet.radius p ^ 2) i j) (planets s))
                  + sum_list (map (\<lambda>a. curvature (vx (custom_mass.position (objs s a)))
                                           (vz (custom_mass.position (objs s a)))
                                           (custom_mass.mass (objs s a)) i j) (custom_masses s)))"
proof -
  let ?g0 = "map (map (\<lambda>_. 0::real)) (grid_heights s)"
  have shape0: "grid_shape ?g0"
    using assms by (simp add: grid_shape_def list_all_length)
  have zero: "\<forall>i < grid_size. \<forall>j < grid_size. ?g0 ! i ! j = 0"
    using assms by (simp add: grid_shape_def list_all_length)
  from bodies_loop [OF shape0, of "\<lambda>p. fst (planet_xz p)" "\<lambda>p. snd (planet_xz p)"
      "\<lambda>p. planet.radius p ^ 2" "planets s"] obtain g1 where
    g1: "foldE (\<lambda>p. add_mass_to_grid (fst (planet_xz p)) (snd (planet_xz p)) (planet.radius p ^ 2))
           (planets s) ?g0 = Inr g1" "grid_shape g1"
      "\<forall>i < grid_size. \<forall>j < grid_size.
          g1 ! i ! j = ?g0 ! i ! j + sum_list (map (\<lambda>p. curvature (fst (planet_xz p)) (snd (planet_xz p))
                                         (planet.radius p ^ 2) i j) (planets s))"
    by blast
  from bodies_loop [OF g1(2), of "\<lambda>a. vx (custom_mass.position (objs s a))"
      "\<lambda>a. vz (custom_mass.position (objs s a))" "\<lambda>a. custom_mass.mass (objs s a)"
      "custom_masses s"] obtain g2 where
    g2: "foldE (\<lambda>a. add_mass_to_grid (vx (custom_mass.position (objs s a)))
                                            (vz (custom_mass.position (objs s a)))
                                            (custom_mass.mass (objs s a)))
           (custom_masses s) g1 = Inr g2" "grid_shape g2"
      "\<forall>i < grid_size. \<forall>j < grid_size.
          g2 ! i ! j = g1 ! i ! j + sum_list (map (\<lambda>a. curvature (vx (custom_mass.position (objs s a)))
                                           (vz (custom_mass.position (objs s a)))
                                           (custom_mass.mass (objs s a)) i j) (custom_masses s))"
    by blast
  have "update_spacetime_grid s = Inr (s\<lparr>grid_heights := g2\<rparr>)"
    by (simp add: update_spacetime_grid_def g1(1) g2(1))
  with g1(3) g2(2,3) zero show ?thesis
    by auto
qed


lemma curvature_centre:
  "curvature x 0 m 40 40 = - m / (max \<bar>x\<bar> 0.1) ^ 2 * 2"
  by (simp add: curvature_def grid_size_def grid_spacing_def)

lemma init_grid_shape: "grid_shape (grid_heights init_sim)"
  by (simp add: grid_shape_def init_sim_def list_all_length)

lemma init_planets_xz:
  "map planet_xz init_planets = [(0, 0), (5, 0), (7, 0), (10, 0), (13, 0), (18, 0), (23, 0), (28, 0), (33, 0)]"
  by (simp add: init_planets_def Planet_def planet_xz_def)

lemma init_planets_radius:
  "map planet.radius init_planets = [2, 0.3, 0.5, 0.6, 0.4, 1.5, 1.2, 0.8, 0.7]"
  by (simp add: init_planets_def Planet_def)

lemma centre_terms:
  "map (\<lambda>p. curvature (fst (planet_xz p)) (snd (planet_xz p)) (planet.radius p ^ e) 40 40) init_planets
     = map (\<lambda>(r, x). - (r ^ e) / (max \<bar>x\<bar> 0.1) ^ 2 * 2)
         [(2, 0), (0.3, 5), (0.5, 7), (0.6, 10), (0.4, 13), (1.5, 18), (1.2, 23), (0.8, 28), (0.7, 33)]"
  by (simp add: init_planets_def Planet_def planet_xz_def curvature_centre)

text \<open>
  Claim C3 at the initial state. \<open>update_spacetime_grid\<close> returns, and the cell
  \<open>[40][40]\<close> (the sample point at the origin) holds the sum of
  \<open>- radius\<^sup>2 / max(distance, 0.1)\<^sup>2 * 2\<close> over the nine planets, about -800.05: the
  planets enter with the square of their radius. With the cube of the radius, as the
  claim has it, the same sum is about -1600.04.
\<close>

theorem grid_uses_radius_squared:
  "(\<exists>s'. update_spacetime_grid init_sim = Inr s'
        \<and> grid_heights s' ! 40 ! 40 = - 19083260635065617 / 23852633805000)
   \<and> sum_list (map (\<lambda>p. curvature (fst (planet_xz p)) (snd (planet_xz p)) (planet.radius p ^ 3) 40 40)
                 (planets init_sim))
       = - 381652073572314739 / 238526338050000"
proof -
  from update_spacetime_grid_eq [OF init_grid_shape] obtain g where
    run: "update_spacetime_grid init_sim = Inr (init_sim\<lparr>grid_heights := g\<rparr>)"
    and vals: "\<forall>i < grid_size. \<forall>j < grid_size.
                g ! i ! j =
                  sum_list (map (\<lambda>p. curvature (fst (planet_xz p)) (snd (planet_xz p))
                                         (planet.radius p ^ 2) i j) (planets init_sim))
                  + sum_list (map (\<lambda>a. curvature (vx (custom_mass.position (objs init_sim a)))
                                           (vz (custom_mass.position (objs init_sim a)))
                                           (custom_mass.mass (objs init_sim a)) i j) (custom_masses init_sim))"
    by blast
  have ps: "planets init_sim = init_planets" and cs: "custom_masses init_sim = []"
    by (simp_all add: init_sim_def)
  have "(40::nat) < grid_size" by (simp add: grid_size_def)
  with vals have "g ! 40 ! 40 =
      sum_list (map (\<lambda>p. curvature (fst (planet_xz p)) (snd (planet_xz p))
                                         (planet.radius p ^ 2) 40 40) init_planets)"
    by (simp add: ps cs)
  then have code: "g ! 40 ! 40 = - 19083260635065617 / 23852633805000"
    unfolding centre_terms by (simp add: power2_eq_square)
  have claim: "sum_list (map (\<lambda>p. curvature (fst (planet_xz p)) (snd (planet_xz p)) (planet.radius p ^ 3) 40 40)
                 (planets init_sim)) = - 381652073572314739 / 238526338050000"
    unfolding ps centre_terms by (simp add: power2_eq_square power3_eq_cube)
  from run code claim show ?thesis by simp
qed

section \<open>Every state the program reaches is well-formed\<close>

text \<open>
  The state after the constructor is well-formed, every event handled without an
  exception leaves a well-formed state, and \<open>update\<close> on a well-formed state raises no
  exception and leaves a well-formed state.
\<close>

lemma state_inv_init: "state_inv init_sim"
  by (simp add: state_inv_def init_sim_def init_planets_def grid_shape_def list_all_length)

lemma state_inv_spawn:
  assumes "state_inv s"
  shows "state_inv (spawn_custom_mass x z s)"
proof -
  from assms have fresh: "next_obj s \<notin> set (custom_masses s)"
    by (auto simp: state_inv_def list_all_iff)
  with assms show ?thesis
    by (auto simp: state_inv_def spawn_custom_mass_def Let_def list_all_iff CustomMass_def)
qed

lemma state_inv_reset:
  assumes "state_inv s" and "reset_simulation s = Inr s'"
  shows "state_inv s'"
proof -
  define ps where "ps = map (\<lambda>(i, p). p\<lparr>current_angle := fst (original_planets s ! i),
                             orbit_radius := fst (snd (original_planets s ! i)),
                             orbit_speed := snd (snd (original_planets s ! i))\<rparr>)
                 (enumerate 0 (planets s))"
  from assms(1) have "length (planets s) + 0 \<le> length (original_planets s)"
    by (simp add: state_inv_def)
  from foldE_restore_planet [OF this, of "[]"] assms(2)
  have s': "s' = s\<lparr>current_time := 0, custom_masses := [], selected_mass := None, planets := ps\<rparr>"
    by (simp add: reset_simulation_def ps_def)
  have len: "length ps = length (planets s)"
    by (simp add: ps_def)
  from assms(1) have "planets s \<noteq> []" and "length (planets s) \<le> length (original_planets s)"
    by (simp_all add: state_inv_def)
  with len have "ps \<noteq> []" and "length ps \<le> length (original_planets s)"
    by auto
  with assms(1) show ?thesis
    unfolding s' state_inv_def by simp
qed

lemma state_inv_handle_key:
  assumes "state_inv s" and "handle_key k s = Inr s'"
  shows "state_inv s'"
proof (cases "k = K_r")
  case True
  with assms show ?thesis
    by (auto simp: handle_key_def intro: state_inv_reset)
next
  case False
  with assms show ?thesis
    by (auto simp: handle_key_def state_inv_def list_all_iff
        split: if_splits option.splits dest: notin_set_remove1)
qed

lemma state_inv_handle_mouse_down:
  assumes "state_inv s"
  shows "state_inv (handle_mouse_down env button pos s)"
proof -
  have sel: "state_inv (s\<lparr>selected_mass := sel, objs := h\<rparr>)"
    if "\<forall>b. custom_mass.mass (h b) = custom_mass.mass (objs s b)" for sel h
    using assms that by (simp add: state_inv_def)
  have mv: "state_inv (s\<lparr>objs := h\<rparr>)"
    if "\<forall>b. custom_mass.mass (h b) = custom_mass.mass (objs s b)" for h
    using assms that by (simp add: state_inv_def)
  have drag: "state_inv (s\<lparr>mouse_pressed := True, last_mouse_x := x, last_mouse_y := y\<rparr>)" for x y
    using assms by (simp add: state_inv_def)
  show ?thesis
    unfolding handle_mouse_down_def Let_def
    using assms by (auto intro!: state_inv_spawn sel mv drag split: option.splits)
qed

lemma state_inv_handle_event:
  assumes "state_inv s" and "handle_event env ev s = Inr (Some s')"
  shows "state_inv s'"
proof (cases ev)
  case QUIT
  with assms show ?thesis by (simp add: handle_event_def)
next
  case (KEYDOWN k)
  with assms show ?thesis
    by (auto simp: handle_event_def split: if_splits sum.splits intro: state_inv_handle_key)
next
  case (MOUSEBUTTONDOWN button pos)
  with assms show ?thesis
    by (auto simp: handle_event_def intro: state_inv_handle_mouse_down)
next
  case (MOUSEBUTTONUP button)
  with assms show ?thesis
    by (auto simp: handle_event_def state_inv_def split: if_splits)
next
  case (MOUSEMOTION pos)
  with assms show ?thesis
    by (auto simp: handle_event_def handle_mouse_motion_def state_inv_def Let_def split: if_splits)
next
  case OTHER_EVENT
  with assms show ?thesis by (simp add: handle_event_def)
qed

lemma state_inv_handle_input:
  "state_inv s \<Longrightarrow> handle_input env evs s = Inr (flag, s') \<Longrightarrow> state_inv s'"
proof (induction evs arbitrary: s)
  case Nil
  then show ?case by simp
next
  case (Cons ev evs)
  then show ?case
    by (auto split: sum.splits option.splits dest: state_inv_handle_event)
qed

lemma map_tail_length: "length (map_tail f ps) = length ps"
  by (cases ps) (simp_all add: map_tail_def)

lemma state_inv_update:
  assumes "state_inv s"
  shows "\<exists>s'. update dt s = Inr s' \<and> state_inv s'"
proof (cases "paused s")
  case True
  with assms show ?thesis by (simp add: update_def)
next
  case False
  let ?s1 = "s\<lparr>current_time := current_time s + dt * time_speed s\<rparr>"
  let ?s2 = "?s1\<lparr>planets := map_tail (advance_planet dt (time_speed ?s1)) (planets ?s1)\<rparr>"
  have inv2: "state_inv ?s2"
    using assms by (simp add: state_inv_def map_tail_Nil map_tail_length)
  show ?thesis
  proof (cases "physics_enabled s")
    case off: False
    then have run: "apply_gravitational_forces (dt * time_speed ?s2) ?s2 = Inr ?s2"
      by (simp add: apply_gravitational_forces_def)
    from inv2 have "grid_shape (grid_heights ?s2)"
      by (simp add: state_inv_def)
    from update_spacetime_grid_eq [OF this] obtain g where
      g: "update_spacetime_grid ?s2 = Inr (?s2\<lparr>grid_heights := g\<rparr>)" "grid_shape g"
      by blast
    have "update dt s = Inr (?s2\<lparr>grid_heights := g\<rparr>)"
      using False run g(1) by (simp add: update_def Let_def)
    moreover have "state_inv (?s2\<lparr>grid_heights := g\<rparr>)"
      using inv2 g(2) by (simp add: state_inv_def)
    ultimately show ?thesis by blast
  next
    case on: True
    from inv2 on have pre: "physics_enabled ?s2" "distinct (custom_masses ?s2)" "planets ?s2 \<noteq> []"
      "list_all (\<lambda>a. custom_mass.mass (objs ?s2 a) \<noteq> 0) (custom_masses ?s2)"
      by (simp_all add: state_inv_def)
    from solver_step [OF pre, of "dt * time_speed ?s2"] obtain H where
      run: "apply_gravitational_forces (dt * time_speed ?s2) ?s2 =
              Inr (?s2\<lparr>objs := H,
                     planets := map_tail (perturb_planet H (custom_masses ?s2)) (planets ?s2)\<rparr>)"
      and mass: "\<forall>b. custom_mass.mass (H b) = custom_mass.mass (objs ?s2 b)"
      by blast
    let ?s3 = "?s2\<lparr>objs := H,
                     planets := map_tail (perturb_planet H (custom_masses ?s2)) (planets ?s2)\<rparr>"
    have inv3: "state_inv ?s3"
      using inv2 mass by (simp add: state_inv_def map_tail_Nil map_tail_length)
    then have "grid_shape (grid_heights ?s3)"
      by (simp add: state_inv_def)
    from update_spacetime_grid_eq [OF this] obtain g where
      g: "update_spacetime_grid ?s3 = Inr (?s3\<lparr>grid_heights := g\<rparr>)" "grid_shape g"
      by blast
    have "update dt s = Inr (?s3\<lparr>grid_heights := g\<rparr>)"
      using False run g(1) by (simp add: update_def Let_def)
    moreover have "state_inv (?s3\<lparr>grid_heights := g\<rparr>)"
      using inv3 g(2) by (simp add: state_inv_def)
    ultimately show ?thesis by blast
  qed
qed

end
